theory Spec2Isabelle
  imports Complex_Main
begin

section \<open>Tensors\<close>

text \<open>
  A torch tensor is modelled by its shape together with its entries as nested lists, so that
  \<open>size()\<close> is defined also when a dimension is zero.  Floating-point entries are
  idealised as real numbers: sums, products and comparisons are exact.  Every failure of the
  source (an exception raised by torch or by Python) is a value of type \<open>error\<close>.
\<close>

datatype error =
  TypeError
  | IndexError
  | SizeMismatch
  | EmptyTensorList
  | AmbiguousView
  | TargetOutOfBounds
  | InconsistentSamples
  | EmptyReduction
  | AssertionError
  | NotContiguous

record tensor2 =
  rows2 :: nat
  cols2 :: nat
  data2 :: "real list list"

record tensor3 =
  batch3 :: nat
  time3 :: nat
  feat3 :: nat
  data3 :: "real list list list"

definition wf_tensor2 :: "tensor2 \<Rightarrow> bool" where
  "wf_tensor2 a \<longleftrightarrow>
     length (data2 a) = rows2 a \<and> list_all (\<lambda>r. length r = cols2 a) (data2 a)"

definition wf_tensor3 :: "tensor3 \<Rightarrow> bool" where
  "wf_tensor3 h \<longleftrightarrow>
     length (data3 h) = batch3 h \<and>
     list_all (\<lambda>r. length r = time3 h \<and> list_all (\<lambda>v. length v = feat3 h) r) (data3 h)"

text \<open>\<open>torch.zeros((n, m))\<close> and \<open>torch.ones((n, m))\<close>.\<close>

definition zeros2 :: "nat \<Rightarrow> nat \<Rightarrow> tensor2" where
  "zeros2 n m = \<lparr>rows2 = n, cols2 = m, data2 = replicate n (replicate m 0)\<rparr>"

definition ones2 :: "nat \<Rightarrow> nat \<Rightarrow> tensor2" where
  "ones2 n m = \<lparr>rows2 = n, cols2 = m, data2 = replicate n (replicate m 1)\<rparr>"

definition zeros3 :: "nat \<Rightarrow> nat \<Rightarrow> nat \<Rightarrow> tensor3" where
  "zeros3 n m k =
     \<lparr>batch3 = n, time3 = m, feat3 = k, data3 = replicate n (replicate m (replicate k 0))\<rparr>"

text \<open>
  \<open>torch.cat([x, y], dim=1)\<close>: the sizes of every other dimension have to agree, and the
  rows are joined pairwise.
\<close>

definition cat2_dim1 :: "tensor2 \<Rightarrow> tensor2 \<Rightarrow> error + tensor2" where
  "cat2_dim1 x y =
     (if rows2 x = rows2 y
      then Inr \<lparr>rows2 = rows2 x, cols2 = cols2 x + cols2 y,
                data2 = map2 (@) (data2 x) (data2 y)\<rparr>
      else Inl SizeMismatch)"

definition cat3_dim1 :: "tensor3 \<Rightarrow> tensor3 \<Rightarrow> error + tensor3" where
  "cat3_dim1 x y =
     (if batch3 x = batch3 y \<and> feat3 x = feat3 y
      then Inr \<lparr>batch3 = batch3 x, time3 = time3 x + time3 y, feat3 = feat3 x,
                data3 = map2 (@) (data3 x) (data3 y)\<rparr>
      else Inl SizeMismatch)"

text \<open>Elementwise difference of two tensors of one shape, and scaling by a number.\<close>

definition sub2 :: "tensor2 \<Rightarrow> tensor2 \<Rightarrow> error + tensor2" where
  "sub2 x y =
     (if rows2 x = rows2 y \<and> cols2 x = cols2 y
      then Inr \<lparr>rows2 = rows2 x, cols2 = cols2 x,
                data2 = map2 (map2 (-)) (data2 x) (data2 y)\<rparr>
      else Inl SizeMismatch)"

definition scale2 :: "tensor2 \<Rightarrow> real \<Rightarrow> tensor2" where
  "scale2 x c = x\<lparr>data2 := map (map (\<lambda>v. v * c)) (data2 x)\<rparr>"

text \<open>\<open>x.sum(dim=-1)\<close> and \<open>torch.floor\<close> on a one-dimensional tensor.\<close>

definition sum_last :: "tensor2 \<Rightarrow> real list" where
  "sum_last x = map sum_list (data2 x)"

definition floor1 :: "real list \<Rightarrow> real list" where
  "floor1 v = map (\<lambda>x. of_int \<lfloor>x\<rfloor>) v"

section \<open>The predictor wrapper: \<open>tail_process_fn\<close>\<close>

text \<open>
  \<open>CifPredictorV2.tail_process_fn(self, hidden, alphas, token_num=None, mask=None)\<close>.
  The first argument of the model is \<open>self.tail_threshold\<close>; \<open>token_num\<close> is
  overwritten before it is read and is left out.  The mask defaults to \<open>None\<close>, on which
  \<open>torch.cat\<close> raises.
\<close>

definition tail_process_fn ::
  "real \<Rightarrow> tensor3 \<Rightarrow> tensor2 \<Rightarrow> tensor2 option \<Rightarrow> error + (tensor3 \<times> tensor2 \<times> real list)"
where
  "tail_process_fn tail_threshold hidden alphas mask_arg =
     (let b = batch3 hidden; d = feat3 hidden;
          zeros_t = zeros2 b 1;
          ones_t = ones2 b 1
      in case mask_arg of
           None \<Rightarrow> Inl TypeError
         | Some mask0 \<Rightarrow>
      (case cat2_dim1 mask0 zeros_t of Inl e \<Rightarrow> Inl e | Inr mask_1 \<Rightarrow>
      (case cat2_dim1 ones_t mask0 of Inl e \<Rightarrow> Inl e | Inr mask_2 \<Rightarrow>
      (case sub2 mask_2 mask_1 of Inl e \<Rightarrow> Inl e | Inr mask' \<Rightarrow>
      (let tail = scale2 mask' tail_threshold
       in case cat2_dim1 alphas tail of Inl e \<Rightarrow> Inl e | Inr alphas' \<Rightarrow>
      (let zeros = zeros3 b 1 d
       in case cat3_dim1 hidden zeros of Inl e \<Rightarrow> Inl e | Inr hidden' \<Rightarrow>
      (let token_num = sum_last alphas';
           token_num_floor = floor1 token_num
       in Inr (hidden', alphas', token_num_floor))))))))"

section \<open>The boundary predictor: \<open>cif\<close>\<close>

text \<open>
  Helpers for the tensor operations of the loop.  One-dimensional tensors of shape
  \<open>[batch_size]\<close> are lists of reals, two-dimensional ones of shape
  \<open>[batch_size, hidden_size]\<close> lists of lists.
\<close>

text \<open>\<open>alphas[:, t]\<close>: an index beyond the second dimension raises.\<close>

definition select_col :: "tensor2 \<Rightarrow> nat \<Rightarrow> error + real list" where
  "select_col a t =
     (if t < cols2 a then Inr (map (\<lambda>r. r ! t) (data2 a)) else Inl IndexError)"

text \<open>
  Broadcasting a one-dimensional tensor to the size \<open>n\<close> of the tensor updated in place:
  equal sizes, or size one repeated; anything else raises.
\<close>

definition broadcast_to :: "nat \<Rightarrow> real list \<Rightarrow> error + real list" where
  "broadcast_to n v =
     (if length v = n then Inr v
      else if length v = 1 then Inr (replicate n (v ! 0))
      else Inl SizeMismatch)"

text \<open>\<open>torch.where(c, x, y)\<close> on one- and two-dimensional tensors of one shape.\<close>

definition where1 :: "bool list \<Rightarrow> real list \<Rightarrow> real list \<Rightarrow> real list" where
  "where1 c x y = map (\<lambda>(p, u, v). if p then u else v) (zip c (zip x y))"

definition where2 :: "bool list list \<Rightarrow> real list list \<Rightarrow> real list list \<Rightarrow> real list list" where
  "where2 c x y = map (\<lambda>(p, u, v). where1 p u v) (zip c (zip x y))"

text \<open>\<open>v[:, None] * m\<close>: row \<open>b\<close> of \<open>m\<close> scaled by \<open>v[b]\<close>.\<close>

definition scale_rows :: "real list \<Rightarrow> real list list \<Rightarrow> real list list" where
  "scale_rows v m = map2 (\<lambda>c r. map (\<lambda>x. c * x) r) v m"

text \<open>\<open>hidden[:, t, :]\<close> for a \<open>t\<close> below the time dimension.\<close>

definition time_slice :: "tensor3 \<Rightarrow> nat \<Rightarrow> real list list" where
  "time_slice h t = map (\<lambda>r. r ! t) (data3 h)"

text \<open>
  The loop state.  \<open>integrate += alpha\<close> and \<open>frame += ...\<close> update a tensor in
  place, and \<open>list_fires.append(integrate)\<close> stores a reference to that tensor, not a
  copy.  The tensors therefore live in two stores (a list addressed by position; one store
  for each rank); the loop variables and the two Python lists hold addresses, and
  \<open>torch.where\<close> allocates a new tensor.
\<close>

record cif_state =
  vec_store :: "real list list"
  mat_store :: "real list list list"
  integrate :: nat
  frame :: nat
  list_fires :: "nat list"
  list_frames :: "nat list"

definition cif_init :: "nat \<Rightarrow> nat \<Rightarrow> cif_state" where
  "cif_init batch_size hidden_size =
     \<lparr>vec_store = [replicate batch_size 0],
      mat_store = [replicate batch_size (replicate hidden_size 0)],
      integrate = 0, frame = 0, list_fires = [], list_frames = []\<rparr>"

text \<open>One iteration of \<open>for t in range(len_time)\<close>.\<close>

definition cif_step :: "real \<Rightarrow> tensor3 \<Rightarrow> tensor2 \<Rightarrow> nat \<Rightarrow> cif_state \<Rightarrow> error + cif_state" where
  "cif_step threshold hidden alphas t s =
     (let batch_size = batch3 hidden; hidden_size = feat3 hidden
      in case select_col alphas t of Inl e \<Rightarrow> Inl e | Inr alpha0 \<Rightarrow>
      (let distribution_completion =
             map2 (-) (replicate batch_size 1) (vec_store s ! integrate s)
       in case broadcast_to batch_size alpha0 of Inl e \<Rightarrow> Inl e | Inr alpha \<Rightarrow>
      (let s1 = s\<lparr>vec_store :=
                    (vec_store s)[integrate s := map2 (+) (vec_store s ! integrate s) alpha]\<rparr>;
           s2 = s1\<lparr>list_fires := list_fires s1 @ [integrate s1]\<rparr>;
           fire_place = map (\<lambda>x. x \<ge> threshold) (vec_store s2 ! integrate s2);
           new_integrate =
             where1 fire_place
               (map2 (-) (vec_store s2 ! integrate s2) (replicate batch_size 1))
               (vec_store s2 ! integrate s2);
           s3 = s2\<lparr>vec_store := vec_store s2 @ [new_integrate],
                   integrate := length (vec_store s2)\<rparr>;
           cur = where1 fire_place distribution_completion alpha;
           remainds = map2 (-) alpha cur;
           s4 = s3\<lparr>mat_store :=
                     (mat_store s3)[frame s3 :=
                        map2 (map2 (+)) (mat_store s3 ! frame s3)
                          (scale_rows cur (time_slice hidden t))]\<rparr>;
           s5 = s4\<lparr>list_frames := list_frames s4 @ [frame s4]\<rparr>;
           new_frame =
             where2 (map (replicate hidden_size) fire_place)
               (scale_rows remainds (time_slice hidden t))
               (mat_store s5 ! frame s5);
           s6 = s5\<lparr>mat_store := mat_store s5 @ [new_frame],
                   frame := length (mat_store s5)\<rparr>
       in Inr s6)))"

fun cif_loop :: "real \<Rightarrow> tensor3 \<Rightarrow> tensor2 \<Rightarrow> nat list \<Rightarrow> cif_state \<Rightarrow> error + cif_state" where
  "cif_loop threshold hidden alphas [] s = Inr s"
| "cif_loop threshold hidden alphas (t # ts) s =
     (case cif_step threshold hidden alphas t s of
        Inl e \<Rightarrow> Inl e
      | Inr s' \<Rightarrow> cif_loop threshold hidden alphas ts s')"

text \<open>
  \<open>torch.stack(xs, 1)\<close> of tensors of shape \<open>[b]\<close>, and of shape \<open>[b, h]\<close>: the list
  index becomes the second dimension.  An empty list raises.
\<close>

definition stack_vecs :: "nat \<Rightarrow> real list list \<Rightarrow> error + tensor2" where
  "stack_vecs b xs =
     (if xs = [] then Inl EmptyTensorList
      else Inr \<lparr>rows2 = b, cols2 = length xs,
                data2 = map (\<lambda>i. map (\<lambda>v. v ! i) xs) [0..<b]\<rparr>)"

definition stack_mats :: "nat \<Rightarrow> nat \<Rightarrow> real list list list \<Rightarrow> error + tensor3" where
  "stack_mats b h xs =
     (if xs = [] then Inl EmptyTensorList
      else Inr \<lparr>batch3 = b, time3 = length xs, feat3 = h,
                data3 = map (\<lambda>i. map (\<lambda>m. m ! i) xs) [0..<b]\<rparr>)"

text \<open>\<open>m[idx]\<close> for a boolean \<open>idx\<close> over the first dimension of \<open>m\<close>.\<close>

definition masked_rows :: "real list list \<Rightarrow> bool list \<Rightarrow> real list list" where
  "masked_rows m idx = map fst (filter snd (zip m idx))"

text \<open>
  The loop \<open>for b in range(batch_size)\<close> over the pair
  \<open>(frame_fires, max_label_len)\<close>.  The slice assignment
  \<open>frame_fires[b, :frame_len, :] = frame_fire\<close> replaces the first \<open>frame_len\<close> rows.
\<close>

fun gather_loop ::
  "real list list list \<Rightarrow> bool list list \<Rightarrow> nat list \<Rightarrow>
     real list list list \<times> nat \<Rightarrow> real list list list \<times> nat"
where
  "gather_loop frames fire_idxs [] st = st"
| "gather_loop frames fire_idxs (b # bs) (frame_fires, max_label_len) =
     (let frame_fire = masked_rows (frames ! b) (fire_idxs ! b);
          frame_len = length frame_fire;
          frame_fires' = frame_fires[b := frame_fire @ drop frame_len (frame_fires ! b)];
          max_label_len' = (if frame_len \<ge> max_label_len then frame_len else max_label_len)
      in gather_loop frames fire_idxs bs (frame_fires', max_label_len'))"

definition cif :: "tensor3 \<Rightarrow> tensor2 \<Rightarrow> real \<Rightarrow> error + (tensor3 \<times> tensor2)" where
  "cif hidden alphas threshold =
     (let batch_size = batch3 hidden; len_time = time3 hidden; hidden_size = feat3 hidden
      in case cif_loop threshold hidden alphas [0..<len_time] (cif_init batch_size hidden_size) of
           Inl e \<Rightarrow> Inl e
         | Inr s \<Rightarrow>
      (case stack_vecs batch_size (map (\<lambda>a. vec_store s ! a) (list_fires s)) of
           Inl e \<Rightarrow> Inl e
         | Inr fires \<Rightarrow>
      (case stack_mats batch_size hidden_size (map (\<lambda>a. mat_store s ! a) (list_frames s)) of
           Inl e \<Rightarrow> Inl e
         | Inr frames \<Rightarrow>
      (let fire_idxs = map (map (\<lambda>x. x \<ge> threshold)) (data2 fires);
           frame_fires = data3 (zeros3 batch_size len_time hidden_size)
       in if batch_size = 0 then Inl IndexError
          else
      (let max_label_len = length (masked_rows (data3 frames ! 0) (fire_idxs ! 0));
           (frame_fires', max_label_len') =
              gather_loop (data3 frames) fire_idxs [0..<batch_size] (frame_fires, max_label_len)
       in Inr (\<lparr>batch3 = batch_size, time3 = min max_label_len' len_time, feat3 = hidden_size,
                 data3 = map (take max_label_len') frame_fires'\<rparr>,
               fires))))))"

section \<open>The loop of \<open>cif\<close> without the store\<close>

text \<open>
  The values the loop computes, step by step, as pure functions of the inputs: the
  accumulator and the frame accumulator on entry to iteration \<open>n\<close>, and the two tensors
  recorded in iteration \<open>n\<close>.  The store-based loop above is proved to compute exactly
  these (lemma \<open>cif_run_state\<close>), which is where the aliasing of the appended tensors
  is shown harmless.
\<close>

definition col :: "tensor2 \<Rightarrow> nat \<Rightarrow> real list" where
  "col a t = map (\<lambda>r. r ! t) (data2 a)"

definition next_integrate :: "real \<Rightarrow> nat \<Rightarrow> real list \<Rightarrow> real list \<Rightarrow> real list" where
  "next_integrate threshold b i alpha =
     (let x = map2 (+) i alpha
      in where1 (map (\<lambda>v. v \<ge> threshold) x) (map2 (-) x (replicate b 1)) x)"

definition recorded_frame ::
  "real \<Rightarrow> nat \<Rightarrow> real list \<Rightarrow> real list list \<Rightarrow> real list \<Rightarrow> real list list \<Rightarrow> real list list"
where
  "recorded_frame threshold b i f alpha ht =
     (let fire_place = map (\<lambda>v. v \<ge> threshold) (map2 (+) i alpha);
          cur = where1 fire_place (map2 (-) (replicate b 1) i) alpha
      in map2 (map2 (+)) f (scale_rows cur ht))"

definition next_frame ::
  "real \<Rightarrow> nat \<Rightarrow> nat \<Rightarrow> real list \<Rightarrow> real list list \<Rightarrow> real list \<Rightarrow> real list list \<Rightarrow> real list list"
where
  "next_frame threshold b h i f alpha ht =
     (let fire_place = map (\<lambda>v. v \<ge> threshold) (map2 (+) i alpha);
          cur = where1 fire_place (map2 (-) (replicate b 1) i) alpha;
          remainds = map2 (-) alpha cur
      in where2 (map (replicate h) fire_place) (scale_rows remainds ht)
           (recorded_frame threshold b i f alpha ht))"

fun integrate_at :: "real \<Rightarrow> tensor2 \<Rightarrow> nat \<Rightarrow> nat \<Rightarrow> real list" where
  "integrate_at threshold a b 0 = replicate b 0"
| "integrate_at threshold a b (Suc n) =
     next_integrate threshold b (integrate_at threshold a b n) (col a n)"

fun frame_at :: "real \<Rightarrow> tensor3 \<Rightarrow> tensor2 \<Rightarrow> nat \<Rightarrow> real list list" where
  "frame_at threshold h a 0 = replicate (batch3 h) (replicate (feat3 h) 0)"
| "frame_at threshold h a (Suc n) =
     next_frame threshold (batch3 h) (feat3 h) (integrate_at threshold a (batch3 h) n)
       (frame_at threshold h a n) (col a n) (time_slice h n)"

definition fire_at :: "real \<Rightarrow> tensor2 \<Rightarrow> nat \<Rightarrow> nat \<Rightarrow> real list" where
  "fire_at threshold a b n = map2 (+) (integrate_at threshold a b n) (col a n)"

definition record_at :: "real \<Rightarrow> tensor3 \<Rightarrow> tensor2 \<Rightarrow> nat \<Rightarrow> real list list" where
  "record_at threshold h a n =
     recorded_frame threshold (batch3 h) (integrate_at threshold a (batch3 h) n)
       (frame_at threshold h a n) (col a n) (time_slice h n)"

definition state_at :: "real \<Rightarrow> tensor3 \<Rightarrow> tensor2 \<Rightarrow> nat \<Rightarrow> cif_state" where
  "state_at threshold h a n =
     \<lparr>vec_store = map (fire_at threshold a (batch3 h)) [0..<n] @
                    [integrate_at threshold a (batch3 h) n],
      mat_store = map (record_at threshold h a) [0..<n] @ [frame_at threshold h a n],
      integrate = n, frame = n, list_fires = [0..<n], list_frames = [0..<n]\<rparr>"

definition fires_tensor :: "real \<Rightarrow> tensor3 \<Rightarrow> tensor2 \<Rightarrow> tensor2" where
  "fires_tensor threshold h a =
     \<lparr>rows2 = batch3 h, cols2 = time3 h,
      data2 = map (\<lambda>i. map (\<lambda>v. v ! i) (map (fire_at threshold a (batch3 h)) [0..<time3 h]))
                [0..<batch3 h]\<rparr>"

definition frames_tensor :: "real \<Rightarrow> tensor3 \<Rightarrow> tensor2 \<Rightarrow> tensor3" where
  "frames_tensor threshold h a =
     \<lparr>batch3 = batch3 h, time3 = time3 h, feat3 = feat3 h,
      data3 = map (\<lambda>i. map (\<lambda>m. m ! i) (map (record_at threshold h a) [0..<time3 h]))
                [0..<batch3 h]\<rparr>"

section \<open>Observations of the loop of \<open>cif\<close>\<close>

text \<open>
  The state of \<open>cif\<close> after the first \<open>n\<close> iterations of its loop over time, and what
  the loop variable \<open>integrate\<close> and the list \<open>list_fires\<close> refer to in that state.
  \<open>cif_frames\<close> is the local tensor \<open>frames\<close> that \<open>cif\<close> builds after the loop.
\<close>

definition cif_run :: "real \<Rightarrow> tensor3 \<Rightarrow> tensor2 \<Rightarrow> nat \<Rightarrow> error + cif_state" where
  "cif_run threshold hidden alphas n =
     cif_loop threshold hidden alphas [0..<n] (cif_init (batch3 hidden) (feat3 hidden))"

definition integrate_after :: "real \<Rightarrow> tensor3 \<Rightarrow> tensor2 \<Rightarrow> nat \<Rightarrow> error + real list" where
  "integrate_after threshold hidden alphas n =
     (case cif_run threshold hidden alphas n of
        Inl e \<Rightarrow> Inl e
      | Inr s \<Rightarrow> Inr (vec_store s ! integrate s))"

definition fires_after :: "real \<Rightarrow> tensor3 \<Rightarrow> tensor2 \<Rightarrow> nat \<Rightarrow> error + real list list" where
  "fires_after threshold hidden alphas n =
     (case cif_run threshold hidden alphas n of
        Inl e \<Rightarrow> Inl e
      | Inr s \<Rightarrow> Inr (map (\<lambda>a. vec_store s ! a) (list_fires s)))"

definition cif_frames :: "tensor3 \<Rightarrow> tensor2 \<Rightarrow> real \<Rightarrow> error + tensor3" where
  "cif_frames hidden alphas threshold =
     (case cif_run threshold hidden alphas (time3 hidden) of
        Inl e \<Rightarrow> Inl e
      | Inr s \<Rightarrow>
          stack_mats (batch3 hidden) (feat3 hidden)
            (map (\<lambda>a. mat_store s ! a) (list_frames s)))"

text \<open>
  The firing positions of batch element \<open>b\<close> in a fire trace: the time steps, in
  increasing order, whose entry reaches the threshold.
\<close>

definition fire_positions :: "real \<Rightarrow> tensor2 \<Rightarrow> nat \<Rightarrow> nat list" where
  "fire_positions threshold fires b =
     filter (\<lambda>t. data2 fires ! b ! t \<ge> threshold) [0..<cols2 fires]"

section \<open>Integrate-and-fire on one batch element\<close>

text \<open>
  The algorithm for a single batch element, as a recursion over the time steps on the
  numbers of one row of alphas and the frame vectors of one sequence: no tensors, no
  store, no loop state.  It is the reference against which the outputs of \<open>cif\<close> are
  stated.  \<open>integral_before\<close> is the accumulated weight on entry to step \<open>t\<close>,
  \<open>raw_integral\<close> the weight after adding \<open>alpha[t]\<close> and before the reset; a step fires
  when the raw integral reaches the threshold, and a firing takes one unit of weight off
  the integral.  The frame of a step contributes with the weight that completes the token
  when the step fires, and with \<open>alpha[t]\<close> otherwise; after a firing the accumulated frame
  restarts from the rest of the weight of that step.
\<close>

fun integral_before :: "real \<Rightarrow> real list \<Rightarrow> nat \<Rightarrow> real" where
  "integral_before threshold alpha 0 = 0"
| "integral_before threshold alpha (Suc t) =
     (let x = integral_before threshold alpha t + alpha ! t
      in if threshold \<le> x then x - 1 else x)"

definition raw_integral :: "real \<Rightarrow> real list \<Rightarrow> nat \<Rightarrow> real" where
  "raw_integral threshold alpha t = integral_before threshold alpha t + alpha ! t"

definition firing :: "real \<Rightarrow> real list \<Rightarrow> nat \<Rightarrow> bool" where
  "firing threshold alpha t \<longleftrightarrow> threshold \<le> raw_integral threshold alpha t"

definition contribution :: "real \<Rightarrow> real list \<Rightarrow> nat \<Rightarrow> real" where
  "contribution threshold alpha t =
     (if firing threshold alpha t then 1 - integral_before threshold alpha t else alpha ! t)"

fun frame_before :: "real \<Rightarrow> nat \<Rightarrow> real list list \<Rightarrow> real list \<Rightarrow> nat \<Rightarrow> real list" where
  "frame_before threshold d frames alpha 0 = replicate d 0"
| "frame_before threshold d frames alpha (Suc t) =
     (if firing threshold alpha t
      then map (\<lambda>x. (alpha ! t - contribution threshold alpha t) * x) (frames ! t)
      else map2 (+) (frame_before threshold d frames alpha t)
             (map (\<lambda>x. contribution threshold alpha t * x) (frames ! t)))"

definition frame_history :: "real \<Rightarrow> nat \<Rightarrow> real list list \<Rightarrow> real list \<Rightarrow> nat \<Rightarrow> real list" where
  "frame_history threshold d frames alpha t =
     map2 (+) (frame_before threshold d frames alpha t)
       (map (\<lambda>x. contribution threshold alpha t * x) (frames ! t))"

definition firing_steps :: "real \<Rightarrow> real list \<Rightarrow> nat \<Rightarrow> nat list" where
  "firing_steps threshold alpha n = filter (firing threshold alpha) [0..<n]"

section \<open>The punctuation model: \<open>nll\<close> and \<open>batchify_nll\<close>\<close>

text \<open>
  \<open>text\<close> and \<open>punc\<close> are integer tensors of shape \<open>(Batch, Length)\<close>, given by their
  rows; \<open>text_lengths\<close> is a one-dimensional tensor of lengths.  The value returned by
  \<open>nll\<close> is one-dimensional in evaluation mode and two-dimensional in training mode.
\<close>

datatype nll_tensor = Vec "real list" | Mat "real list list"

text \<open>\<open>text_lengths.max()\<close>: raises on a tensor without elements.\<close>

definition lengths_max :: "nat list \<Rightarrow> error + nat" where
  "lengths_max ls = (if ls = [] then Inl EmptyReduction else Inr (fold max ls 0))"

text \<open>
  \<open>F.cross_entropy(input, target, reduction="none", ignore_index=ignore_id)\<close> on
  \<open>input\<close> of shape \<open>(N, C)\<close> and \<open>target\<close> of shape \<open>(N,)\<close>: the loss of an item
  whose target is the ignored index is 0, of any other item the negative log-softmax of its
  logits at the target class; a target that is no class raises.
\<close>

definition valid_target :: "int \<Rightarrow> real list \<Rightarrow> int \<Rightarrow> bool" where
  "valid_target ignore_index logits target \<longleftrightarrow>
     target = ignore_index \<or> (0 \<le> target \<and> nat target < length logits)"

definition item_loss :: "int \<Rightarrow> real list \<Rightarrow> int \<Rightarrow> real" where
  "item_loss ignore_index logits target =
     (if target = ignore_index then 0
      else ln (sum_list (map exp logits)) - logits ! nat target)"

definition cross_entropy :: "real list list \<Rightarrow> int list \<Rightarrow> int \<Rightarrow> error + real list" where
  "cross_entropy input target ignore_index =
     (if length input \<noteq> length target then Inl SizeMismatch
      else if \<not> list_all (\<lambda>(l, t). valid_target ignore_index l t) (zip input target)
      then Inl TargetOutOfBounds
      else Inr (map2 (item_loss ignore_index) input target))"

text \<open>
  Modelled from the spec: \<open>make_pad_mask\<close> (module \<open>funasr.modules.nets_utils\<close>) is
  not among the sources.  The spec derives the mask from the lengths and calls masked the
  positions beyond each sequence's true length: entry \<open>(b, i)\<close> is true iff
  \<open>i \<ge> lengths[b]\<close>, for \<open>i\<close> below \<open>maxlen\<close>, which defaults to the largest length.
\<close>

definition make_pad_mask :: "nat list \<Rightarrow> nat option \<Rightarrow> bool list list" where
  "make_pad_mask lengths maxlen =
     (let n = (case maxlen of None \<Rightarrow> fold max lengths 0 | Some m \<Rightarrow> m)
      in map (\<lambda>l. map (\<lambda>i. i \<ge> l) [0..<n]) lengths)"

text \<open>
  \<open>x.masked_fill_(m, v)\<close> on one-dimensional tensors: the mask has to be broadcastable
  to the shape of \<open>x\<close>, that is of the same size or of size one.
\<close>

definition masked_fill :: "real list \<Rightarrow> bool list \<Rightarrow> real \<Rightarrow> error + real list" where
  "masked_fill x m v =
     (if length m = length x then Inr (map2 (\<lambda>a p. if p then v else a) x m)
      else if length m = 1 then Inr (map (\<lambda>a. if m ! 0 then v else a) x)
      else Inl SizeMismatch)"

text \<open>
  \<open>x.view(b, -1)\<close> on a one-dimensional tensor: the number of elements has to be a
  multiple of \<open>b\<close>, and the second dimension is the quotient (0 for a tensor without
  elements).  For \<open>b = 0\<close> the second dimension is ambiguous on a tensor without elements
  and no shape fits any other tensor, so torch raises.
\<close>

definition view_rows :: "nat \<Rightarrow> real list \<Rightarrow> error + real list list" where
  "view_rows b x =
     (if b = 0 then (if x = [] then Inl AmbiguousView else Inl SizeMismatch)
      else if length x mod b \<noteq> 0 then Inl SizeMismatch
      else Inr (map (\<lambda>i. take (length x div b) (drop (i * (length x div b)) x)) [0..<b]))"

text \<open>
  \<open>punc[:, :n].view(-1)\<close> on a contiguous \<open>punc\<close>, given by its rows.  The slice
  shares the storage of \<open>punc\<close>: with two or more rows it is contiguous only when it
  keeps the whole width, and \<open>view\<close> raises on a tensor that is not (a tensor without
  elements, and a single row, can always be viewed).
\<close>

definition view_flat_slice :: "nat \<Rightarrow> int list list \<Rightarrow> error + int list" where
  "view_flat_slice n rows =
     (if 2 \<le> length rows \<and> 0 < n \<and> n < length (hd rows) then Inl NotContiguous
      else Inr (concat (map (take n) rows)))"

text \<open>
  \<open>ESPnetPunctuationModel.nll\<close>.  The first five arguments stand for the injected
  sequence model \<open>self.punc_model\<close> (its first output, taken to be a contiguous tensor),
  \<open>topk(1)\<close> on one row of logits, sklearn's \<open>f1_score(..., average='micro')\<close>,
  \<open>self.training\<close> and \<open>self.ignore_id\<close>.  The body never reads \<open>punc_lengths\<close>,
  which is left out here; binding it is part of the call (\<open>nll_call\<close> below).  sklearn
  raises when its two arguments differ in length.
\<close>

definition nll ::
  "(int list list \<Rightarrow> nat list \<Rightarrow> real list list list) \<Rightarrow> (real list \<Rightarrow> int) \<Rightarrow>
   (int list \<Rightarrow> int list \<Rightarrow> real) \<Rightarrow> bool \<Rightarrow> int \<Rightarrow>
   int list list \<Rightarrow> int list list \<Rightarrow> nat list \<Rightarrow> nat option \<Rightarrow>
   error + (nll_tensor \<times> nat list)"
where
  "nll punc_model topk1 f1_score training ignore_id text punc text_lengths max_length =
     (let batch_size = length text
      in case (case max_length of
                 None \<Rightarrow> lengths_max text_lengths
               | Some m \<Rightarrow> Inr m) of
           Inl e \<Rightarrow> Inl e
         | Inr n \<Rightarrow>
      (let text' = map (take n) text;
           y = punc_model text' text_lengths
       in if training = False then
            (let indices = map topk1 (concat y)
             in case view_flat_slice n punc of
                  Inl e \<Rightarrow> Inl e
                | Inr target \<Rightarrow>
                    if length target \<noteq> length indices then Inl InconsistentSamples
                    else Inr (Vec (replicate (sum_list text_lengths)
                                     (f1_score target indices)),
                              text_lengths))
          else
      (case view_flat_slice n punc of
           Inl e \<Rightarrow> Inl e
         | Inr target \<Rightarrow>
      (case cross_entropy (concat y) target ignore_id of
           Inl e \<Rightarrow> Inl e
         | Inr losses \<Rightarrow>
      (case masked_fill losses
              (concat (make_pad_mask text_lengths
                         (case max_length of None \<Rightarrow> None | Some m \<Rightarrow> Some (m + 1))))
              0 of
           Inl e \<Rightarrow> Inl e
         | Inr filled \<Rightarrow>
      (case view_rows batch_size filled of
           Inl e \<Rightarrow> Inl e
         | Inr rows \<Rightarrow> Inr (Mat rows, text_lengths)))))))"

text \<open>
  A call of the method \<open>nll\<close>.  Its parameter \<open>punc_lengths\<close> has no default value: a
  call that does not bind it (the argument \<open>None\<close> here) raises \<open>TypeError\<close> before the
  body runs.  \<open>forward\<close> binds it; the two calls in \<open>batchify_nll\<close> pass
  \<open>(text, punc, text_lengths)\<close> and \<open>(batch_text, batch_punc, batch_text_lengths,
  max_length=max_length)\<close> and do not.
\<close>

definition nll_call ::
  "(int list list \<Rightarrow> nat list \<Rightarrow> real list list list) \<Rightarrow> (real list \<Rightarrow> int) \<Rightarrow>
   (int list \<Rightarrow> int list \<Rightarrow> real) \<Rightarrow> bool \<Rightarrow> int \<Rightarrow>
   int list list \<Rightarrow> int list list \<Rightarrow> nat list \<Rightarrow> nat list option \<Rightarrow> nat option \<Rightarrow>
   error + (nll_tensor \<times> nat list)"
where
  "nll_call punc_model topk1 f1_score training ignore_id text punc text_lengths
       punc_lengths max_length =
     (case punc_lengths of
        None \<Rightarrow> Inl TypeError
      | Some _ \<Rightarrow>
          nll punc_model topk1 f1_score training ignore_id text punc text_lengths max_length)"

text \<open>
  \<open>torch.cat\<close> along the first dimension: the tensors have to be of one rank, and the
  two-dimensional ones of one width.
\<close>

fun cat_dim0 :: "nll_tensor list \<Rightarrow> error + nll_tensor" where
  "cat_dim0 [] = Inl EmptyTensorList"
| "cat_dim0 [x] = Inr x"
| "cat_dim0 (x # xs) =
     (case cat_dim0 xs of
        Inl e \<Rightarrow> Inl e
      | Inr r \<Rightarrow>
          (case (x, r) of
             (Vec u, Vec v) \<Rightarrow> Inr (Vec (u @ v))
           | (Mat u, Mat v) \<Rightarrow>
               (if u \<noteq> [] \<and> v \<noteq> [] \<and> length (hd u) \<noteq> length (hd v) then Inl SizeMismatch
                else Inr (Mat (u @ v)))
           | _ \<Rightarrow> Inl SizeMismatch))"

definition size0 :: "nll_tensor \<Rightarrow> nat" where
  "size0 x = (case x of Vec v \<Rightarrow> length v | Mat m \<Rightarrow> length m)"

text \<open>
  The \<open>while True\<close> loop of \<open>batchify_nll\<close>.  It ends when \<open>start_idx\<close> reaches
  \<open>total_num\<close> or when the call of \<open>nll\<close> raises; a loop that does not end is the
  value \<open>None\<close>.
\<close>

partial_function (option) batchify_loop ::
  "(int list list \<Rightarrow> nat list \<Rightarrow> real list list list) \<Rightarrow> (real list \<Rightarrow> int) \<Rightarrow>
   (int list \<Rightarrow> int list \<Rightarrow> real) \<Rightarrow> bool \<Rightarrow> int \<Rightarrow>
   int list list \<Rightarrow> int list list \<Rightarrow> nat list \<Rightarrow> nat \<Rightarrow> nat \<Rightarrow>
   nat \<Rightarrow> nll_tensor list \<Rightarrow> nat list list \<Rightarrow>
   (error + (nll_tensor list \<times> nat list list)) option"
where
  "batchify_loop punc_model topk1 f1_score training ignore_id text punc text_lengths
       batch_size max_length start_idx nlls x_lengths =
     (let total_num = length text;
          end_idx = min (start_idx + batch_size) total_num;
          batch_text = take (end_idx - start_idx) (drop start_idx text);
          batch_punc = take (end_idx - start_idx) (drop start_idx punc);
          batch_text_lengths = take (end_idx - start_idx) (drop start_idx text_lengths);
          r = nll_call punc_model topk1 f1_score training ignore_id
                batch_text batch_punc batch_text_lengths None (Some max_length)
      in if isl r then Some (Inl (projl r))
         else if end_idx = total_num
         then Some (Inr (nlls @ [fst (projr r)], x_lengths @ [snd (projr r)]))
         else batchify_loop punc_model topk1 f1_score training ignore_id text punc text_lengths
                batch_size max_length end_idx
                (nlls @ [fst (projr r)]) (x_lengths @ [snd (projr r)]))"

text \<open>\<open>ESPnetPunctuationModel.batchify_nll\<close>, with its two final assertions.\<close>

definition batchify_nll ::
  "(int list list \<Rightarrow> nat list \<Rightarrow> real list list list) \<Rightarrow> (real list \<Rightarrow> int) \<Rightarrow>
   (int list \<Rightarrow> int list \<Rightarrow> real) \<Rightarrow> bool \<Rightarrow> int \<Rightarrow>
   int list list \<Rightarrow> int list list \<Rightarrow> nat list \<Rightarrow> nat \<Rightarrow>
   (error + (nll_tensor \<times> nat list)) option"
where
  "batchify_nll punc_model topk1 f1_score training ignore_id text punc text_lengths batch_size =
     (let total_num = length text;
          r = (if total_num \<le> batch_size
               then Some (nll_call punc_model topk1 f1_score training ignore_id
                            text punc text_lengths None None)
               else
                 (case lengths_max text_lengths of
                    Inl e \<Rightarrow> Some (Inl e)
                  | Inr max_length \<Rightarrow>
                      (case batchify_loop punc_model topk1 f1_score training ignore_id
                              text punc text_lengths batch_size max_length 0 [] [] of
                         None \<Rightarrow> None
                       | Some (Inl e) \<Rightarrow> Some (Inl e)
                       | Some (Inr (nlls, x_lengths)) \<Rightarrow>
                           (case cat_dim0 nlls of
                              Inl e \<Rightarrow> Some (Inl e)
                            | Inr nll_all \<Rightarrow> Some (Inr (nll_all, concat x_lengths))))))
      in case r of
           None \<Rightarrow> None
         | Some (Inl e) \<Rightarrow> Some (Inl e)
         | Some (Inr (nll_all, x_lengths)) \<Rightarrow>
             (if size0 nll_all \<noteq> total_num then Some (Inl AssertionError)
              else if length x_lengths \<noteq> total_num then Some (Inl AssertionError)
              else Some (Inr (nll_all, x_lengths))))"
section \<open>The store-based loop computes the pure values\<close>

lemma cif_loop_append:
  "cif_loop th h a (xs @ ys) s =
     (case cif_loop th h a xs s of Inl e \<Rightarrow> Inl e | Inr s' \<Rightarrow> cif_loop th h a ys s')"
  by (induction xs arbitrary: s) (auto split: sum.splits)

lemma cif_step_state:
  assumes "wf_tensor2 a" "rows2 a = batch3 h" "n < cols2 a"
  shows "cif_step th h a n (state_at th h a n) = Inr (state_at th h a (Suc n))"
  using assms
  by (simp add: cif_step_def state_at_def select_col_def broadcast_to_def Let_def wf_tensor2_def
    nth_append list_update_append fire_at_def record_at_def next_integrate_def next_frame_def
    recorded_frame_def col_def comp_assoc)

lemma cif_run_state:
  assumes "wf_tensor2 a" "rows2 a = batch3 h" "n \<le> cols2 a"
  shows "cif_run th h a n = Inr (state_at th h a n)"
  using assms(3)
proof (induction n)
  case 0
  show ?case by (simp add: cif_run_def cif_init_def state_at_def)
next
  case (Suc n)
  then show ?case using cif_step_state[OF assms(1,2), of n th]
    by (simp add: cif_run_def cif_loop_append)
qed

lemma integrate_after_eq:
  assumes "wf_tensor2 a" "rows2 a = batch3 h" "n \<le> cols2 a"
  shows "integrate_after th h a n = Inr (integrate_at th a (batch3 h) n)"
  by (simp add: integrate_after_def cif_run_state[OF assms] state_at_def nth_append)

lemma fires_after_eq:
  assumes "wf_tensor2 a" "rows2 a = batch3 h" "n \<le> cols2 a"
  shows "fires_after th h a n = Inr (map (fire_at th a (batch3 h)) [0..<n])"
  by (simp add: fires_after_def cif_run_state[OF assms] state_at_def nth_append cong: map_cong)

lemma cif_frames_eq:
  assumes "wf_tensor2 a" "rows2 a = batch3 h" "time3 h \<le> cols2 a" "0 < time3 h"
  shows "cif_frames h a th = Inr (frames_tensor th h a)"
  using assms(4)
  by (simp add: cif_frames_def cif_run_state[OF assms(1-3)] state_at_def nth_append stack_mats_def frames_tensor_def cong: map_cong)

lemma length_integrate_at:
  "length (data2 a) = b \<Longrightarrow> length (integrate_at th a b n) = b"
  by (induction n) (simp_all add: next_integrate_def where1_def col_def Let_def)

lemma fire_at_nth:
  "length (data2 a) = b \<Longrightarrow> i < b \<Longrightarrow>
   fire_at th a b n ! i = integrate_at th a b n ! i + data2 a ! i ! n"
  by (simp add: fire_at_def col_def length_integrate_at)

lemma integrate_at_Suc_nth:
  "length (data2 a) = b \<Longrightarrow> i < b \<Longrightarrow>
   integrate_at th a b (Suc n) ! i =
     (if th \<le> fire_at th a b n ! i then fire_at th a b n ! i - 1 else fire_at th a b n ! i)"
  by (simp add: fire_at_def next_integrate_def where1_def col_def length_integrate_at Let_def)

lemma gather_loop_length:
  "length (fst (gather_loop F I bs (ff, m))) = length ff"
  by (induction bs arbitrary: ff m) (simp_all add: Let_def)

lemma gather_loop_nth:
  "c < length ff \<Longrightarrow>
   fst (gather_loop F I bs (ff, m)) ! c =
     (if c \<in> set bs
      then masked_rows (F ! c) (I ! c) @ drop (length (masked_rows (F ! c) (I ! c))) (ff ! c)
      else ff ! c)"
proof (induction bs arbitrary: ff m)
  case Nil
  then show ?case by simp
next
  case (Cons b bs)
  then show ?case
    by (cases "c = b") (simp_all add: Let_def)
qed

lemma Max_insert_max:
  fixes a b :: nat
  assumes "finite S"
  shows "Max (insert (max a b) S) = Max (insert a (insert b S))"
proof (cases "S = {}")
  case True
  then show ?thesis by (simp add: max.commute)
next
  case False
  with assms show ?thesis by (simp add: max.assoc)
qed

lemma gather_loop_max:
  "snd (gather_loop F I bs (ff, m)) =
     Max (insert m ((\<lambda>b. length (masked_rows (F ! b) (I ! b))) ` set bs))"
proof (induction bs arbitrary: ff m)
  case Nil
  then show ?case by simp
next
  case (Cons b bs)
  let ?f = "\<lambda>b. length (masked_rows (F ! b) (I ! b))"
  have m: "(if ?f b \<ge> m then ?f b else m) = max m (?f b)"
    by (simp add: max_def)
  have "snd (gather_loop F I (b # bs) (ff, m)) = Max (insert (max m (?f b)) (?f ` set bs))"
    unfolding gather_loop.simps Let_def m by (rule Cons.IH)
  also have "\<dots> = Max (insert m (insert (?f b) (?f ` set bs)))"
    by (rule Max_insert_max) simp
  finally show ?case by simp
qed

lemma state_at_fires:
  "map (\<lambda>x. vec_store (state_at th h a n) ! x) (list_fires (state_at th h a n)) =
     map (fire_at th a (batch3 h)) [0..<n]"
  by (simp add: state_at_def nth_append cong: map_cong)

lemma state_at_frames:
  "map (\<lambda>x. mat_store (state_at th h a n) ! x) (list_frames (state_at th h a n)) =
     map (record_at th h a) [0..<n]"
  by (simp add: state_at_def nth_append cong: map_cong)

lemma cif_unfold:
  assumes "wf_tensor2 a" "rows2 a = batch3 h" "time3 h \<le> cols2 a" "0 < time3 h" "0 < batch3 h"
  shows "cif h a th =
    (let F = data3 (frames_tensor th h a);
         I = map (map (\<lambda>x. x \<ge> th)) (data2 (fires_tensor th h a));
         r = gather_loop F I [0..<batch3 h]
               (replicate (batch3 h) (replicate (time3 h) (replicate (feat3 h) 0)),
                length (masked_rows (F ! 0) (I ! 0)))
     in Inr (\<lparr>batch3 = batch3 h, time3 = min (snd r) (time3 h), feat3 = feat3 h,
               data3 = map (take (snd r)) (fst r)\<rparr>,
             fires_tensor th h a))"
proof -
  have run: "cif_loop th h a [0..<time3 h] (cif_init (batch3 h) (feat3 h)) =
             Inr (state_at th h a (time3 h))"
    using cif_run_state[OF assms(1-3), of th] by (simp add: cif_run_def)
  have sv: "stack_vecs (batch3 h) (map (fire_at th a (batch3 h)) [0..<time3 h]) =
            Inr (fires_tensor th h a)"
    using assms(4) by (simp add: stack_vecs_def fires_tensor_def)
  have sm: "stack_mats (batch3 h) (feat3 h) (map (record_at th h a) [0..<time3 h]) =
            Inr (frames_tensor th h a)"
    using assms(4) by (simp add: stack_mats_def frames_tensor_def)
  show ?thesis
    using assms(5)
    by (simp add: cif_def run state_at_fires state_at_frames sv sm zeros3_def Let_def
        case_prod_beta)
qed

lemma fires_tensor_nth:
  "b < batch3 h \<Longrightarrow> t < time3 h \<Longrightarrow>
   data2 (fires_tensor th h a) ! b ! t = fire_at th a (batch3 h) t ! b"
  by (simp add: fires_tensor_def)

lemma wf_fires_tensor: "wf_tensor2 (fires_tensor th h a)"
  by (simp add: wf_tensor2_def fires_tensor_def list_all_iff)

lemma zip_as_map:
  "length xs = length ys \<Longrightarrow> zip xs ys = map (\<lambda>i. (xs ! i, ys ! i)) [0..<length ys]"
  by (rule nth_equalityI) simp_all

lemma masked_rows_positions:
  assumes "length m = length xs"
  shows "masked_rows m (map P xs) = map ((!) m) (filter (\<lambda>t. P (xs ! t)) [0..<length xs])"
proof -
  have "zip m (map P xs) = map (\<lambda>i. (m ! i, map P xs ! i)) [0..<length xs]"
    using zip_as_map[of m "map P xs"] assms by simp
  also have "\<dots> = map (\<lambda>i. (m ! i, P (xs ! i))) [0..<length xs]"
    by simp
  finally show ?thesis
    by (simp add: masked_rows_def filter_map comp_def)
qed

lemma frames_tensor_row:
  "b < batch3 h \<Longrightarrow> length (data3 (frames_tensor th h a) ! b) = time3 h"
  by (simp add: frames_tensor_def)

lemma fires_tensor_row:
  "b < batch3 h \<Longrightarrow> length (data2 (fires_tensor th h a) ! b) = time3 h"
  by (simp add: fires_tensor_def)

lemma selected_rows:
  assumes "b < batch3 h"
  shows "masked_rows (data3 (frames_tensor th h a) ! b)
           (map (map (\<lambda>x. x \<ge> th)) (data2 (fires_tensor th h a)) ! b) =
         map (\<lambda>t. data3 (frames_tensor th h a) ! b ! t)
           (fire_positions th (fires_tensor th h a) b)"
proof -
  have l: "length (data2 (fires_tensor th h a)) = batch3 h"
    by (simp add: fires_tensor_def)
  have c: "cols2 (fires_tensor th h a) = time3 h"
    by (simp add: fires_tensor_def)
  show ?thesis
    using assms masked_rows_positions[of "data3 (frames_tensor th h a) ! b"
        "data2 (fires_tensor th h a) ! b" "\<lambda>x. x \<ge> th"]
    by (simp add: l c frames_tensor_row fires_tensor_row fire_positions_def)
qed

lemma length_fire_positions:
  "length (fire_positions th (fires_tensor th h a) b) \<le> time3 h"
  using length_filter_le[of "\<lambda>t. data2 (fires_tensor th h a) ! b ! t \<ge> th" "[0..<time3 h]"]
  by (simp add: fire_positions_def fires_tensor_def)

lemma cif_result:
  fixes th :: real and h :: tensor3 and a :: tensor2
  defines "fires \<equiv> fires_tensor th h a"
  defines "frames \<equiv> frames_tensor th h a"
  defines "m \<equiv> Max ((\<lambda>b. length (fire_positions th (fires_tensor th h a) b)) ` {0..<batch3 h})"
  assumes "wf_tensor2 a" "rows2 a = batch3 h" "time3 h \<le> cols2 a" "0 < time3 h" "0 < batch3 h"
  shows "cif h a th =
    Inr (\<lparr>batch3 = batch3 h, time3 = m, feat3 = feat3 h,
           data3 = map (\<lambda>b. map (\<lambda>t. data3 frames ! b ! t) (fire_positions th fires b) @
                              replicate (m - length (fire_positions th fires b))
                                (replicate (feat3 h) 0))
                     [0..<batch3 h]\<rparr>,
         fires)"
proof -
  let ?F = "data3 frames"
  let ?I = "map (map (\<lambda>x. x \<ge> th)) (data2 fires)"
  let ?z = "replicate (feat3 h) (0::real)"
  let ?ff = "replicate (batch3 h) (replicate (time3 h) ?z)"
  let ?r = "gather_loop ?F ?I [0..<batch3 h] (?ff, length (masked_rows (?F ! 0) (?I ! 0)))"
  let ?c = "\<lambda>b. length (fire_positions th fires b)"
  have sel: "masked_rows (?F ! b) (?I ! b) = map (\<lambda>t. ?F ! b ! t) (fire_positions th fires b)"
    if "b < batch3 h" for b
    using selected_rows[OF that] by (simp add: fires_def frames_def)
  have cnt: "(\<lambda>b. length (masked_rows (?F ! b) (?I ! b))) ` set [0..<batch3 h] =
             ?c ` {0..<batch3 h}"
    by (rule image_cong) (simp_all add: sel)
  have "snd ?r = Max (insert (?c 0) (?c ` {0..<batch3 h}))"
    using assms(8) by (simp add: gather_loop_max cnt sel)
  also have "insert (?c 0) (?c ` {0..<batch3 h}) = ?c ` {0..<batch3 h}"
    using assms(8) by auto
  finally have snd_r: "snd ?r = m" by (simp add: m_def fires_def)
  have m_le: "m \<le> time3 h"
    unfolding m_def using assms(8) length_fire_positions[of th h a]
    by simp
  have c_le: "?c b \<le> m" if "b < batch3 h" for b
    unfolding m_def fires_def using that by (intro Max_ge) simp_all
  have row: "take m (fst ?r ! b) =
      map (\<lambda>t. ?F ! b ! t) (fire_positions th fires b) @ replicate (m - ?c b) ?z"
    if "b < batch3 h" for b
  proof -
    have "fst ?r ! b = masked_rows (?F ! b) (?I ! b) @
            drop (length (masked_rows (?F ! b) (?I ! b))) (?ff ! b)"
      using that by (simp add: gather_loop_nth)
    then have "fst ?r ! b = map (\<lambda>t. ?F ! b ! t) (fire_positions th fires b) @
            replicate (time3 h - ?c b) ?z"
      using that by (simp add: sel)
    then show ?thesis
      using c_le[OF that] m_le by (simp add: min_def)
  qed
  have data: "map (take m) (fst ?r) =
      map (\<lambda>b. map (\<lambda>t. ?F ! b ! t) (fire_positions th fires b) @ replicate (m - ?c b) ?z)
        [0..<batch3 h]"
    by (rule nth_equalityI) (simp_all add: gather_loop_length row)
  show ?thesis
    using cif_unfold[OF assms(4-8), of th] m_le
    by (simp add: Let_def fires_def[symmetric] frames_def[symmetric] snd_r data min_def)
qed

lemma wf_tensor3_nth:
  "wf_tensor3 h \<Longrightarrow> b < batch3 h \<Longrightarrow> t < time3 h \<Longrightarrow> length (data3 h ! b ! t) = feat3 h"
  by (auto simp: wf_tensor3_def list_all_length)

lemma wf_tensor3_row:
  "wf_tensor3 h \<Longrightarrow> b < batch3 h \<Longrightarrow> length (data3 h ! b) = time3 h"
  by (auto simp: wf_tensor3_def list_all_length)

lemma recorded_frame_shape:
  assumes "length i = b" "length alpha = b" "length ht = b" "length f = b"
    and "\<forall>k<b. length (f ! k) = d" and "\<forall>k<b. length (ht ! k) = d"
  shows "length (recorded_frame th b i f alpha ht) = b \<and>
         (\<forall>k<b. length (recorded_frame th b i f alpha ht ! k) = d)"
  using assms by (simp add: recorded_frame_def where1_def scale_rows_def Let_def)

lemma next_frame_shape:
  assumes "length i = b" "length alpha = b" "length ht = b" "length f = b"
    and "\<forall>k<b. length (f ! k) = d" and "\<forall>k<b. length (ht ! k) = d"
  shows "length (next_frame th b d i f alpha ht) = b \<and>
         (\<forall>k<b. length (next_frame th b d i f alpha ht ! k) = d)"
  using assms recorded_frame_shape[OF assms, of th]
  by (simp add: next_frame_def where2_def where1_def scale_rows_def Let_def)

lemma time_slice_shape:
  assumes "wf_tensor3 h" "n < time3 h"
  shows "length (time_slice h n) = batch3 h \<and> (\<forall>k<batch3 h. length (time_slice h n ! k) = feat3 h)"
  using assms by (auto simp: time_slice_def wf_tensor3_def list_all_length)

lemma frame_at_shape:
  assumes "wf_tensor3 h" "length (data2 a) = batch3 h" "n \<le> time3 h"
  shows "length (frame_at th h a n) = batch3 h \<and>
         (\<forall>k<batch3 h. length (frame_at th h a n ! k) = feat3 h)"
  using assms(3)
proof (induction n)
  case 0
  show ?case by simp
next
  case (Suc n)
  then have ih: "length (frame_at th h a n) = batch3 h"
     "\<forall>k<batch3 h. length (frame_at th h a n ! k) = feat3 h" by simp_all
  have ts: "length (time_slice h n) = batch3 h"
     "\<forall>k<batch3 h. length (time_slice h n ! k) = feat3 h"
    using time_slice_shape[OF assms(1), of n] Suc.prems by simp_all
  show ?case
    unfolding frame_at.simps
    by (rule next_frame_shape) (simp_all add: length_integrate_at assms(2) col_def ih ts)
qed

lemma record_at_shape:
  assumes "wf_tensor3 h" "length (data2 a) = batch3 h" "n < time3 h"
  shows "length (record_at th h a n) = batch3 h \<and>
         (\<forall>k<batch3 h. length (record_at th h a n ! k) = feat3 h)"
proof -
  have f: "length (frame_at th h a n) = batch3 h"
     "\<forall>k<batch3 h. length (frame_at th h a n ! k) = feat3 h"
    using frame_at_shape[OF assms(1,2), of n th] assms(3) by simp_all
  have ts: "length (time_slice h n) = batch3 h"
     "\<forall>k<batch3 h. length (time_slice h n ! k) = feat3 h"
    using time_slice_shape[OF assms(1,3)] by simp_all
  show ?thesis
    unfolding record_at_def
    by (rule recorded_frame_shape) (simp_all add: length_integrate_at assms(2) col_def f ts)
qed

lemma frames_tensor_nth:
  "b < batch3 h \<Longrightarrow> t < time3 h \<Longrightarrow>
   data3 (frames_tensor th h a) ! b ! t = record_at th h a t ! b"
  by (simp add: frames_tensor_def)

lemma wf_frames_tensor:
  assumes "wf_tensor3 h" "length (data2 a) = batch3 h"
  shows "wf_tensor3 (frames_tensor th h a)"
  using record_at_shape[OF assms]
  by (simp add: wf_tensor3_def frames_tensor_def list_all_length)

lemma fire_positions_bound:
  "t \<in> set (fire_positions th fires b) \<Longrightarrow> t < cols2 fires"
  by (simp add: fire_positions_def)

section \<open>Shapes returned by \<open>tail_process_fn\<close>\<close>

lemma tail_process_fn_shapes:
  assumes "rows2 alphas = batch3 hidden" and "rows2 m = batch3 hidden"
  shows "\<exists>hidden' alphas' n.
           tail_process_fn tail_threshold hidden alphas (Some m) = Inr (hidden', alphas', n) \<and>
           time3 hidden' = time3 hidden + 1 \<and>
           cols2 alphas' = cols2 alphas + (cols2 m + 1)"
  using assms
  by (simp add: tail_process_fn_def cat2_dim1_def cat3_dim1_def sub2_def scale2_def
      zeros2_def ones2_def zeros3_def Let_def)

section \<open>Evaluating the tensor operations on vectors of unknown entries\<close>

lemma upt3: "[0..<3] = [0, 1, 2]"
  by (simp add: upt_rec)

lemma select_all_False:
  "length x = n \<Longrightarrow> length y = n \<Longrightarrow>
   map2 (\<lambda>p (u, v). if p then u else v) (replicate n False) (zip x y) = y"
  by (rule nth_equalityI) simp_all

lemma select_all_True:
  "length x = n \<Longrightarrow> length y = n \<Longrightarrow>
   map2 (\<lambda>p (u, v). if p then u else v) (replicate n True) (zip x y) = x"
  by (rule nth_equalityI) simp_all

lemma add_zeros_left:
  "length (v :: real list) = n \<Longrightarrow> map2 (+) (replicate n 0) v = v"
  by (rule nth_equalityI) simp_all

lemma scale_by_zero: "map ((*) (0::real)) f = replicate (length f) 0"
  by (rule nth_equalityI) simp_all

section \<open>The accumulator of \<open>cif\<close>\<close>

lemma wf_tensor2_nth:
  "wf_tensor2 a \<Longrightarrow> b < rows2 a \<Longrightarrow> t < cols2 a \<Longrightarrow> data2 a ! b ! t \<in> set (data2 a ! b)"
  by (auto simp: wf_tensor2_def list_all_length)

lemma integrate_at_range:
  assumes len: "length (data2 a) = b" and th: "1 \<le> th"
    and nonneg: "\<forall>t<n. \<forall>i<b. 0 \<le> data2 a ! i ! t"
    and single: "\<forall>t<n. \<forall>i<b. fire_at th a b t ! i < th + 1"
    and i: "i < b"
  shows "0 \<le> integrate_at th a b n ! i \<and> integrate_at th a b n ! i < th"
  using nonneg single
proof (induction n)
  case 0
  show ?case using th i by simp
next
  case (Suc n)
  then have ih: "0 \<le> integrate_at th a b n ! i" "integrate_at th a b n ! i < th"
    by simp_all
  have a: "0 \<le> data2 a ! i ! n" using Suc.prems(1) i by simp
  have f: "fire_at th a b n ! i < th + 1" using Suc.prems(2) i by simp
  have e: "fire_at th a b n ! i = integrate_at th a b n ! i + data2 a ! i ! n"
    by (rule fire_at_nth[OF len i])
  show ?case
    using ih a f th by (simp add: integrate_at_Suc_nth[OF len i] e del: integrate_at.simps)
qed

lemma upt2: "[0..<2] = [0, 1]"
  by (simp add: upt_rec)

lemma integrate_at_zero:
  assumes "length (data2 a) = b" and "0 < th"
    and "\<forall>t<n. \<forall>i<b. data2 a ! i ! t = 0"
  shows "integrate_at th a b n = replicate b 0"
  using assms(3)
proof (induction n)
  case 0
  show ?case by simp
next
  case (Suc n)
  then have ih: "integrate_at th a b n = replicate b 0" by simp
  have c: "col a n = replicate b 0"
    using Suc.prems assms(1) by (intro nth_equalityI) (simp_all add: col_def)
  show ?case
    using assms(2)
    by (intro nth_equalityI) (simp_all add: ih c next_integrate_def where1_def Let_def)
qed

lemma fire_at_zero:
  assumes "length (data2 a) = b" and "0 < th"
    and "\<forall>t\<le>n. \<forall>i<b. data2 a ! i ! t = 0"
  shows "fire_at th a b n = replicate b 0"
proof -
  have "integrate_at th a b n = replicate b 0"
    using assms by (intro integrate_at_zero) simp_all
  moreover have "col a n = replicate b 0"
    using assms by (intro nth_equalityI) (simp_all add: col_def)
  ultimately show ?thesis
    by (intro nth_equalityI) (simp_all add: fire_at_def)
qed

section \<open>\<open>nll\<close> in training mode\<close>

lemma zip_concat:
  "list_all2 (\<lambda>x y. length x = length y) xs ys \<Longrightarrow>
   zip (concat xs) (concat ys) = concat (map2 zip xs ys)"
  by (induction rule: list_all2_induct) simp_all

lemma map2_concat:
  "list_all2 (\<lambda>x y. length x = length y) xs ys \<Longrightarrow>
   map2 f (concat xs) (concat ys) = concat (map2 (map2 f) xs ys)"
  by (induction rule: list_all2_induct) simp_all

lemma length_concat_uniform:
  "\<forall>r\<in>set R. length r = n \<Longrightarrow> length (concat R) = length R * n"
  by (induction R) simp_all

lemma take_drop_concat:
  "\<forall>r\<in>set R. length r = n \<Longrightarrow> i < length R \<Longrightarrow>
   take n (drop (i * n) (concat R)) = R ! i"
proof (induction R arbitrary: i)
  case Nil
  then show ?case by simp
next
  case (Cons r R)
  show ?case
  proof (cases i)
    case 0
    then show ?thesis using Cons.prems by simp
  next
    case (Suc j)
    then show ?thesis using Cons.prems Cons.IH[of j] by simp
  qed
qed

lemma view_rows_concat:
  assumes "\<forall>r\<in>set R. length r = n" "length R = b" "0 < b"
  shows "view_rows b (concat R) = Inr R"
proof -
  have l: "length (concat R) = b * n"
    using length_concat_uniform[OF assms(1)] assms(2) by simp
  have "map (\<lambda>i. take n (drop (i * n) (concat R))) [0..<b] = R"
    using assms(2) take_drop_concat[OF assms(1)]
    by (intro nth_equalityI) simp_all
  then show ?thesis
    using assms(3) by (simp add: view_rows_def l)
qed

lemma view_flat_slice_whole:
  assumes "\<forall>r\<in>set rows. length r = w" and "length rows = 1 \<or> w \<le> n"
  shows "view_flat_slice n rows = Inr (concat (map (take n) rows))"
proof (cases "2 \<le> length rows")
  case True
  then have "hd rows \<in> set rows" by (cases rows) auto
  with assms True show ?thesis by (auto simp: view_flat_slice_def)
next
  case False
  then show ?thesis by (simp add: view_flat_slice_def)
qed

lemma nll_training:
  fixes punc_model :: "int list list \<Rightarrow> nat list \<Rightarrow> real list list list"
    and text_lengths :: "nat list" and toks :: "int list list"
  defines "n \<equiv> fold max text_lengths 0"
  defines "y \<equiv> punc_model (map (take n) toks) text_lengths"
  assumes B: "length toks = B" "length punc = B" "length text_lengths = B" "0 < B"
    and pw: "\<forall>r\<in>set punc. length r = w" "n \<le> w" "B = 1 \<or> w = n"
    and ys: "length y = B" "\<forall>r\<in>set y. length r = n"
    and valid: "\<forall>b<B. \<forall>i<n. valid_target ignore_id (y ! b ! i) (punc ! b ! i)"
  shows "nll punc_model topk1 f1_score True ignore_id toks punc text_lengths None =
         Inr (Mat (map (\<lambda>b. map (\<lambda>i. if text_lengths ! b \<le> i then 0
                                       else item_loss ignore_id (y ! b ! i) (punc ! b ! i))
                                 [0..<n])
                     [0..<B]),
              text_lengths)"
proof -
  let ?P = "map (take n) punc"
  let ?item = "item_loss ignore_id"
  let ?fill = "\<lambda>a p. if p then (0::real) else a"
  let ?L = "map2 (map2 ?item) y ?P"
  let ?M = "map (\<lambda>l. map (\<lambda>i. l \<le> i) [0..<n]) text_lengths"
  let ?R = "map2 (map2 ?fill) ?L ?M"
  have lm: "lengths_max text_lengths = Inr n"
    using B(3,4) by (auto simp: lengths_max_def n_def)
  have yb: "length (y ! b) = n" if "b < B" for b
    using ys that by simp
  have vf: "view_flat_slice n punc = Inr (concat ?P)"
    using pw(3) B(2) by (intro view_flat_slice_whole[OF pw(1)]) auto
  have pb: "length (?P ! b) = n" if "b < B" for b
    using pw(1,2) B(2) that by simp
  have la: "list_all2 (\<lambda>x y. length x = length y) y ?P"
    using ys(1) B(2) yb pb by (simp add: list_all2_conv_all_nth)
  have len: "length (concat y) = length (concat ?P)"
    using la by (induction rule: list_all2_induct) simp_all
  have v: "list_all (\<lambda>(l, t). valid_target ignore_id l t) (zip (concat y) (concat ?P))"
  proof -
    have row: "valid_target ignore_id l t"
      if z: "(l, t) \<in> set (zip (y ! b) (?P ! b))" and b: "b < B" for l t b
    proof -
      from z obtain i where i: "i < n" "l = y ! b ! i" "t = ?P ! b ! i"
        using yb[OF b] pb[OF b] by (auto simp: set_zip)
      have "?P ! b ! i = punc ! b ! i"
        using b B(2) i(1) by simp
      then show ?thesis using valid b i by simp
    qed
    have "case z of (l, t) \<Rightarrow> valid_target ignore_id l t"
      if "z \<in> set (concat (map2 zip y ?P))" for z
    proof -
      from that obtain zs where zs: "zs \<in> set (map2 zip y ?P)" "z \<in> set zs"
        by auto
      from zs(1) obtain b where b: "b < length (map2 zip y ?P)" "zs = map2 zip y ?P ! b"
        by (auto simp: in_set_conv_nth)
      from b(1) have bB: "b < B" using ys(1) B(2) by simp
      then have "zs = zip (y ! b) (?P ! b)"
        using b(2) ys(1) B(2) by simp
      with zs(2) row[of "fst z" "snd z" b] bB show ?thesis
        by (simp add: case_prod_beta)
    qed
    then show ?thesis
      by (simp add: zip_concat[OF la] list_all_iff del: set_concat)
  qed
  have ce: "cross_entropy (concat y) (concat ?P) ignore_id = Inr (concat ?L)"
    using len v by (simp add: cross_entropy_def map2_concat[OF la])
  have mk: "make_pad_mask text_lengths None = ?M"
    by (simp add: make_pad_mask_def n_def)
  have lL: "length ?L = B" using ys(1) B(2) by simp
  have Lb: "length (?L ! b) = n" if "b < B" for b
    using that ys(1) B(2) yb[OF that] pb[OF that] by simp
  have la2: "list_all2 (\<lambda>x y. length x = length y) ?L ?M"
    using ys(1) B(2,3) yb pb by (simp add: list_all2_conv_all_nth)
  have len2: "length (concat ?M) = length (concat ?L)"
    using la2 by (induction rule: list_all2_induct) simp_all
  have mf: "masked_fill (concat ?L) (concat ?M) 0 = Inr (concat ?R)"
    using len2 by (simp add: masked_fill_def map2_concat[OF la2])
  have lR: "length ?R = B" using lL B(3) by simp
  have Rb: "?R ! b = map (\<lambda>i. if text_lengths ! b \<le> i then 0
                              else item_loss ignore_id (y ! b ! i) (punc ! b ! i)) [0..<n]"
    if "b < B" for b
  proof (rule nth_equalityI)
    show "length (?R ! b) = length (map (\<lambda>i. if text_lengths ! b \<le> i then 0
                              else item_loss ignore_id (y ! b ! i) (punc ! b ! i)) [0..<n])"
      using that ys(1) B(2,3) yb[OF that] pb[OF that] by simp
  next
    fix i assume "i < length (?R ! b)"
    then have i: "i < n"
      using that ys(1) B(2,3) yb[OF that] pb[OF that] by simp
    show "?R ! b ! i = map (\<lambda>i. if text_lengths ! b \<le> i then 0
                              else item_loss ignore_id (y ! b ! i) (punc ! b ! i)) [0..<n] ! i"
      using that i ys(1) B(2,3) yb[OF that] pb[OF that] by simp
  qed
  have R: "?R = map (\<lambda>b. map (\<lambda>i. if text_lengths ! b \<le> i then 0
                                       else item_loss ignore_id (y ! b ! i) (punc ! b ! i))
                                 [0..<n]) [0..<B]"
  proof (rule nth_equalityI)
    show "length ?R = length (map (\<lambda>b. map (\<lambda>i. if text_lengths ! b \<le> i then 0
                                       else item_loss ignore_id (y ! b ! i) (punc ! b ! i))
                                 [0..<n]) [0..<B])"
      unfolding lR by simp
  next
    fix b assume "b < length ?R"
    then have b: "b < B" unfolding lR .
    show "?R ! b = map (\<lambda>b. map (\<lambda>i. if text_lengths ! b \<le> i then 0
                                       else item_loss ignore_id (y ! b ! i) (punc ! b ! i))
                                 [0..<n]) [0..<B] ! b"
      unfolding Rb[OF b] using b by simp
  qed
  have Rn: "\<forall>r\<in>set ?R. length r = n"
    unfolding R by simp
  have vr: "view_rows B (concat ?R) = Inr ?R"
    by (rule view_rows_concat[OF Rn lR B(4)])
  show ?thesis
    unfolding nll_def Let_def
    using B(1) by (simp add: lm y_def[symmetric] vf ce mk mf vr R[symmetric] del: map_map)
qed

lemma length_concat_le:
  "\<forall>r\<in>set R. length r \<le> n \<Longrightarrow> length (concat R) \<le> length R * n"
  by (induction R) (simp_all add: add_mono)

lemma length_concat_pad_mask:
  "length (concat (make_pad_mask ls (Some k))) = length ls * k"
  by (induction ls) (simp_all add: make_pad_mask_def)

lemma nll_max_length_raises:
  fixes punc_model :: "int list list \<Rightarrow> nat list \<Rightarrow> real list list list"
  assumes "0 < length toks" and "0 < m \<or> 1 < length toks"
    and "length text_lengths = length toks"
    and "length (punc_model (map (take m) toks) text_lengths) = length toks"
    and "\<forall>r\<in>set (punc_model (map (take m) toks) text_lengths). length r \<le> m"
  shows "\<exists>e. nll punc_model topk1 f1_score True ignore_id toks punc text_lengths (Some m) = Inl e"
proof (cases "view_flat_slice m punc")
  case (Inl e)
  then show ?thesis by (simp add: nll_def)
next
  case target: (Inr target)
  show ?thesis
  proof (cases "cross_entropy (concat (punc_model (map (take m) toks) text_lengths))
                  target ignore_id")
    case (Inl e)
    then show ?thesis using target by (simp add: nll_def)
  next
    case (Inr losses)
    let ?B = "length toks"
    let ?y = "punc_model (map (take m) toks) text_lengths"
    let ?mask = "concat (make_pad_mask text_lengths (Some (m + 1)))"
    have "length losses = length (concat ?y)"
      using Inr by (auto simp: cross_entropy_def split: if_splits)
    also have "\<dots> \<le> ?B * m"
      using length_concat_le[OF assms(5)] assms(4) by simp
    finally have ll: "length losses \<le> ?B * m" .
    have lm: "length ?mask = ?B * m + ?B"
      using assms(3) by (simp add: length_concat_pad_mask)
    from ll assms(1) have "length losses < ?B * m + ?B" by linarith
    with lm have ne: "length ?mask \<noteq> length losses" by linarith
    have "1 < ?B * m + ?B"
    proof (cases "0 < m")
      case True
      with assms(1) have "0 < ?B * m" by simp
      with assms(1) show ?thesis by linarith
    next
      case False
      with assms(2) show ?thesis by simp
    qed
    with lm have "length ?mask \<noteq> 1" by simp
    then show ?thesis
      using target Inr ne by (simp add: nll_def masked_fill_def)
  qed
qed

section \<open>The loop of \<open>cif\<close> computes the recursion of each batch element\<close>

lemma integrate_at_row:
  assumes "length (data2 a) = B" and "b < B"
  shows "integrate_at th a B n ! b = integral_before th (data2 a ! b) n"
proof (induction n)
  case 0
  show ?case using assms(2) by simp
next
  case (Suc n)
  show ?case
    using Suc
    by (simp add: integrate_at_Suc_nth[OF assms] fire_at_nth[OF assms] Let_def
        del: integrate_at.simps)
qed

lemma fire_at_row:
  assumes "length (data2 a) = B" and "b < B"
  shows "fire_at th a B n ! b = raw_integral th (data2 a ! b) n"
  by (simp add: fire_at_nth[OF assms] integrate_at_row[OF assms] raw_integral_def)

lemma where1_replicate:
  "length u = d \<Longrightarrow> length v = d \<Longrightarrow> where1 (replicate d p) u v = (if p then u else v)"
  by (cases p) (simp_all add: where1_def select_all_True select_all_False)

lemma recorded_frame_nth:
  assumes "length i = B" "length alpha = B" "length ht = B" "length f = B" "b < B"
  shows "recorded_frame th B i f alpha ht ! b =
         map2 (+) (f ! b)
           (map (\<lambda>x. (if th \<le> i ! b + alpha ! b then 1 - i ! b else alpha ! b) * x) (ht ! b))"
  using assms by (simp add: recorded_frame_def where1_def scale_rows_def Let_def)

lemma next_frame_nth:
  assumes "length i = B" "length alpha = B" "length ht = B" "length f = B" "b < B"
    and "length (f ! b) = d" "length (ht ! b) = d"
  shows "next_frame th B d i f alpha ht ! b =
         (if th \<le> i ! b + alpha ! b
          then map (\<lambda>x. (alpha ! b - (1 - i ! b)) * x) (ht ! b)
          else map2 (+) (f ! b) (map (\<lambda>x. alpha ! b * x) (ht ! b)))"
proof -
  have r: "recorded_frame th B i f alpha ht ! b =
         map2 (+) (f ! b)
           (map (\<lambda>x. (if th \<le> i ! b + alpha ! b then 1 - i ! b else alpha ! b) * x) (ht ! b))"
    by (rule recorded_frame_nth[OF assms(1-5)])
  have lr: "length (recorded_frame th B i f alpha ht) = B"
    using assms(1-4) by (simp add: recorded_frame_def where1_def scale_rows_def Let_def)
  have "next_frame th B d i f alpha ht ! b =
        where1 (replicate d (th \<le> i ! b + alpha ! b))
          (map (\<lambda>x. (alpha ! b - (if th \<le> i ! b + alpha ! b then 1 - i ! b else alpha ! b)) * x)
             (ht ! b))
          (recorded_frame th B i f alpha ht ! b)"
    using assms(1-5) lr
    by (simp add: next_frame_def where2_def where1_def[of "map _ _"] scale_rows_def Let_def)
  also have "\<dots> = (if th \<le> i ! b + alpha ! b
          then map (\<lambda>x. (alpha ! b - (1 - i ! b)) * x) (ht ! b)
          else map2 (+) (f ! b) (map (\<lambda>x. alpha ! b * x) (ht ! b)))"
    using assms(6,7) by (simp add: where1_replicate r)
  finally show ?thesis .
qed

lemma frame_at_row:
  assumes "wf_tensor3 h" and "length (data2 a) = batch3 h" and "b < batch3 h"
  shows "n \<le> time3 h \<Longrightarrow>
         frame_at th h a n ! b = frame_before th (feat3 h) (data3 h ! b) (data2 a ! b) n"
proof (induction n)
  case 0
  show ?case using assms(3) by simp
next
  case (Suc n)
  then have n: "n < time3 h" "n \<le> time3 h" by simp_all
  have ih: "frame_at th h a n ! b = frame_before th (feat3 h) (data3 h ! b) (data2 a ! b) n"
    using Suc by simp
  have fs: "length (frame_at th h a n) = batch3 h" "length (frame_at th h a n ! b) = feat3 h"
    using frame_at_shape[OF assms(1,2) n(2), of th] assms(3) by simp_all
  have ts: "length (time_slice h n) = batch3 h" "length (time_slice h n ! b) = feat3 h"
    using time_slice_shape[OF assms(1) n(1)] assms(3) by simp_all
  have li: "length (integrate_at th a (batch3 h) n) = batch3 h"
    by (rule length_integrate_at[OF assms(2)])
  have lc: "length (col a n) = batch3 h"
    using assms(2) by (simp add: col_def)
  have cb: "col a n ! b = data2 a ! b ! n"
    using assms(2,3) by (simp add: col_def)
  have tb: "time_slice h n ! b = data3 h ! b ! n"
    using assms(1,3) by (simp add: time_slice_def wf_tensor3_def)
  have ib: "integrate_at th a (batch3 h) n ! b = integral_before th (data2 a ! b) n"
    by (rule integrate_at_row[OF assms(2,3)])
  show ?case
    unfolding frame_at.simps
    by (simp add: next_frame_nth[OF li lc ts(1) fs(1) assms(3) fs(2) ts(2)] cb tb ib ih
        firing_def raw_integral_def contribution_def)
qed

lemma record_at_row:
  assumes "wf_tensor3 h" and "length (data2 a) = batch3 h" and "b < batch3 h" and "n < time3 h"
  shows "record_at th h a n ! b = frame_history th (feat3 h) (data3 h ! b) (data2 a ! b) n"
proof -
  have n: "n \<le> time3 h" using assms(4) by simp
  have fs: "length (frame_at th h a n) = batch3 h"
    using frame_at_shape[OF assms(1,2) n, of th] by simp
  have ts: "length (time_slice h n) = batch3 h"
    using time_slice_shape[OF assms(1,4)] by simp
  have li: "length (integrate_at th a (batch3 h) n) = batch3 h"
    by (rule length_integrate_at[OF assms(2)])
  have lc: "length (col a n) = batch3 h"
    using assms(2) by (simp add: col_def)
  have cb: "col a n ! b = data2 a ! b ! n"
    using assms(2,3) by (simp add: col_def)
  have tb: "time_slice h n ! b = data3 h ! b ! n"
    using assms(1,3) by (simp add: time_slice_def wf_tensor3_def)
  have ib: "integrate_at th a (batch3 h) n ! b = integral_before th (data2 a ! b) n"
    by (rule integrate_at_row[OF assms(2,3)])
  show ?thesis
    unfolding record_at_def
    by (simp add: recorded_frame_nth[OF li lc ts fs assms(3)] cb tb ib
        frame_at_row[OF assms(1-3) n] frame_history_def firing_def raw_integral_def
        contribution_def)
qed

lemma fire_positions_row:
  assumes "length (data2 a) = batch3 h" and "b < batch3 h"
  shows "fire_positions th (fires_tensor th h a) b = firing_steps th (data2 a ! b) (time3 h)"
proof -
  have "filter (\<lambda>t. th \<le> data2 (fires_tensor th h a) ! b ! t) [0..<time3 h] =
        filter (firing th (data2 a ! b)) [0..<time3 h]"
    using assms(2)
    by (intro filter_cong) (simp_all add: fires_tensor_nth fire_at_row[OF assms] firing_def)
  then show ?thesis
    by (simp add: fire_positions_def firing_steps_def fires_tensor_def)
qed

lemma one_row_of_two:
  assumes "length xss = 1" and "length (xss ! 0) = 2"
    and "xss ! 0 ! 0 = x" and "xss ! 0 ! 1 = y"
  shows "xss = [[x, y]]"
proof -
  from assms(1) obtain r where r: "xss = [r]"
    by (cases xss) auto
  with assms(2) obtain a b where "r = [a, b]"
    by (cases r; cases "tl r") auto
  with r assms(3,4) show ?thesis by simp
qed

section \<open>\<open>batchify_nll\<close> on every input\<close>

lemma batchify_nll_raises:
  "batchify_nll punc_model topk1 f1_score training ignore_id toks punc text_lengths batch_size =
     Some (Inl (if length toks \<le> batch_size \<or> text_lengths \<noteq> [] then TypeError
                else EmptyReduction))"
  by (simp add: batchify_nll_def batchify_loop.simps nll_call_def lengths_max_def Let_def)

lemma list_of_two: "length xs = 2 \<Longrightarrow> xs = [xs ! 0, xs ! 1]"
  by (rule nth_equalityI) (auto simp: less_Suc_eq numeral_2_eq_2)


section \<open>Claims about \<open>tail_process_fn\<close>\<close>

text \<open>
  C1.  The claim: for a mask row of \<open>L\<close> ones followed by zeros, \<open>tail_process_fn\<close>
  returns \<open>alphas'\<close> of shape \<open>(b, t + 1)\<close>, the input alphas with
  \<open>tail_threshold\<close> added at position \<open>L\<close>, of the same time length as \<open>hidden'\<close>.
  The code joins the input alphas (\<open>t\<close> columns) with the whole indicator row
  (\<open>t + 1\<close> columns) instead of adding the indicator to the alphas padded by one column,
  so that \<open>alphas'\<close> has \<open>2 * t + 1\<close> columns for every input (lemma
  \<open>tail_process_fn_shapes\<close>).  With one sequence of two frames, true length 1, alphas
  \<open>[0.3, 0]\<close> and \<open>tail_threshold = 0.45\<close>, \<open>hidden'\<close> has three time steps and
  \<open>alphas'\<close> is
  \<open>[0.3, 0, 0, 0.45, 0]\<close>, five columns, where the claim gives \<open>[0.3, 0.45, 0]\<close>.
\<close>

theorem tail_process_fn_alphas_too_long:
  "tail_process_fn (45 / 100)
     \<lparr>batch3 = 1, time3 = 2, feat3 = 1, data3 = [[[1], [2]]]\<rparr>
     \<lparr>rows2 = 1, cols2 = 2, data2 = [[3 / 10, 0]]\<rparr>
     (Some \<lparr>rows2 = 1, cols2 = 2, data2 = [[1, 0]]\<rparr>)
   = Inr (\<lparr>batch3 = 1, time3 = 3, feat3 = 1, data3 = [[[1], [2], [0]]]\<rparr>,
          \<lparr>rows2 = 1, cols2 = 5, data2 = [[3 / 10, 0, 0, 45 / 100, 0]]\<rparr>,
          [0])"
  by (simp add: tail_process_fn_def cat2_dim1_def cat3_dim1_def sub2_def scale2_def
      zeros2_def ones2_def zeros3_def sum_last_def floor1_def)

section \<open>Claims about the accumulator of \<open>cif\<close>\<close>

text \<open>
  C2, as the claim states it, is false: on a firing the accumulator is reduced by the
  constant 1, not by the threshold.  With threshold \<open>0.5\<close> and the single alpha
  \<open>0.6\<close> the step fires (the recorded value is \<open>0.6\<close>), the accumulator becomes
  \<open>0.6 - 1\<close>, which is neither \<open>0.6 - 0.5\<close> nor in \<open>[0, 0.5)\<close>.
\<close>

theorem cif_reset_by_threshold_counterexample:
  "fires_after (1 / 2) \<lparr>batch3 = 1, time3 = 1, feat3 = 1, data3 = [[[1]]]\<rparr>
      \<lparr>rows2 = 1, cols2 = 1, data2 = [[6 / 10]]\<rparr> 1 = Inr [[6 / 10]] \<and>
   integrate_after (1 / 2) \<lparr>batch3 = 1, time3 = 1, feat3 = 1, data3 = [[[1]]]\<rparr>
      \<lparr>rows2 = 1, cols2 = 1, data2 = [[6 / 10]]\<rparr> 1 = Inr [6 / 10 - 1] \<and>
   (6 / 10 - 1 :: real) \<noteq> 6 / 10 - 1 / 2 \<and>
   \<not> (0 \<le> (6 / 10 - 1 :: real))"
  by (simp add: fires_after_def integrate_after_def cif_run_def cif_init_def cif_step_def
      select_col_def broadcast_to_def where1_def where2_def scale_rows_def time_slice_def Let_def)

text \<open>
  C2, amended.  In iteration \<open>n\<close> of the loop the recorded value is the accumulator on
  entry plus \<open>alphas[b, n]\<close>; where it reaches the threshold the accumulator is reset by
  subtracting exactly 1 (not zeroed), elsewhere it is the recorded value.  Consequently, for
  a threshold of at least 1, non-negative alphas and recorded values below
  \<open>threshold + 1\<close> (one subtraction brings them below the threshold: at most one firing
  per step), the accumulator is in \<open>[0, threshold)\<close> after every frame.
\<close>

theorem cif_integrate_reset:
  assumes "wf_tensor2 alphas" and "rows2 alphas = batch3 hidden"
    and "cols2 alphas = time3 hidden" and "n < time3 hidden"
  shows "\<exists>acc acc' recs.
           integrate_after threshold hidden alphas n = Inr acc \<and>
           integrate_after threshold hidden alphas (Suc n) = Inr acc' \<and>
           fires_after threshold hidden alphas (Suc n) = Inr recs \<and>
           (\<forall>b<batch3 hidden.
              recs ! n ! b = acc ! b + data2 alphas ! b ! n \<and>
              acc' ! b = (if recs ! n ! b \<ge> threshold then recs ! n ! b - 1 else recs ! n ! b)) \<and>
           (1 \<le> threshold \<and> (\<forall>r\<in>set (data2 alphas). \<forall>x\<in>set r. 0 \<le> x) \<and>
            (\<forall>t\<le>n. \<forall>b<batch3 hidden. recs ! t ! b < threshold + 1) \<longrightarrow>
            (\<forall>b<batch3 hidden. 0 \<le> acc' ! b \<and> acc' ! b < threshold))"
proof -
  let ?B = "batch3 hidden"
  have len: "length (data2 alphas) = ?B"
    using assms(1,2) by (simp add: wf_tensor2_def)
  have n: "n \<le> cols2 alphas" "Suc n \<le> cols2 alphas" using assms(3,4) by simp_all
  have a: "integrate_after threshold hidden alphas n = Inr (integrate_at threshold alphas ?B n)"
    by (rule integrate_after_eq[OF assms(1,2) n(1)])
  have a': "integrate_after threshold hidden alphas (Suc n) =
            Inr (integrate_at threshold alphas ?B (Suc n))"
    by (rule integrate_after_eq[OF assms(1,2) n(2)])
  have r: "fires_after threshold hidden alphas (Suc n) =
           Inr (map (fire_at threshold alphas ?B) [0..<Suc n])"
    by (rule fires_after_eq[OF assms(1,2) n(2)])
  have rn: "map (fire_at threshold alphas ?B) [0..<Suc n] ! t = fire_at threshold alphas ?B t"
    if "t \<le> n" for t
    using that nth_map_upt[of t "Suc n" 0 "fire_at threshold alphas ?B"] by simp
  have step: "\<forall>b<?B.
      map (fire_at threshold alphas ?B) [0..<Suc n] ! n ! b =
        integrate_at threshold alphas ?B n ! b + data2 alphas ! b ! n \<and>
      integrate_at threshold alphas ?B (Suc n) ! b =
        (if map (fire_at threshold alphas ?B) [0..<Suc n] ! n ! b \<ge> threshold
         then map (fire_at threshold alphas ?B) [0..<Suc n] ! n ! b - 1
         else map (fire_at threshold alphas ?B) [0..<Suc n] ! n ! b)"
    unfolding rn[OF order_refl]
    by (simp add: fire_at_nth[OF len] integrate_at_Suc_nth[OF len] del: integrate_at.simps)
  have range: "\<forall>b<?B. 0 \<le> integrate_at threshold alphas ?B (Suc n) ! b \<and>
                 integrate_at threshold alphas ?B (Suc n) ! b < threshold"
    if th: "1 \<le> threshold" and nonneg: "\<forall>r\<in>set (data2 alphas). \<forall>x\<in>set r. 0 \<le> x"
      and single: "\<forall>t\<le>n. \<forall>b<?B. map (fire_at threshold alphas ?B) [0..<Suc n] ! t ! b < threshold + 1"
  proof (intro allI impI)
    fix b assume b: "b < ?B"
    have nn: "\<forall>t<Suc n. \<forall>i<?B. 0 \<le> data2 alphas ! i ! t"
    proof (intro allI impI)
      fix t i assume "t < Suc n" "i < ?B"
      then have "data2 alphas ! i ! t \<in> set (data2 alphas ! i)"
        using wf_tensor2_nth[OF assms(1), of i t] assms(2,3,4) by simp
      moreover have "data2 alphas ! i \<in> set (data2 alphas)"
        using \<open>i < ?B\<close> len by simp
      ultimately show "0 \<le> data2 alphas ! i ! t" using nonneg by blast
    qed
    have sg: "\<forall>t<Suc n. \<forall>i<?B. fire_at threshold alphas ?B t ! i < threshold + 1"
      using single rn by (simp add: less_Suc_eq_le)
    show "0 \<le> integrate_at threshold alphas ?B (Suc n) ! b \<and>
          integrate_at threshold alphas ?B (Suc n) ! b < threshold"
      by (rule integrate_at_range[OF len th nn sg b])
  qed
  show ?thesis
    apply (rule exI[of _ "integrate_at threshold alphas ?B n"])
    apply (rule exI[of _ "integrate_at threshold alphas ?B (Suc n)"])
    apply (rule exI[of _ "map (fire_at threshold alphas ?B) [0..<Suc n]"])
    using a a' r step range by blast
qed

theorem cif_integrate_reset_witness:
  "\<exists>acc'. integrate_after 1 \<lparr>batch3 = 1, time3 = 2, feat3 = 1, data3 = [[[1], [2]]]\<rparr>
            \<lparr>rows2 = 1, cols2 = 2, data2 = [[6 / 10, 7 / 10]]\<rparr> 2 = Inr acc' \<and>
          0 \<le> acc' ! 0 \<and> acc' ! 0 < 1"
proof -
  let ?h = "\<lparr>batch3 = 1, time3 = 2, feat3 = 1, data3 = [[[1::real], [2]]]\<rparr>"
  let ?a = "\<lparr>rows2 = 1, cols2 = 2, data2 = [[6 / 10, 7 / 10 :: real]]\<rparr>"
  have h: "wf_tensor2 ?a" "rows2 ?a = batch3 ?h" "cols2 ?a = time3 ?h" "1 < time3 ?h"
    by (simp_all add: wf_tensor2_def)
  have ev: "fires_after 1 ?h ?a (Suc 1) = Inr [[6 / 10], [13 / 10]]"
    by (simp add: fires_after_def cif_run_def upt2 cif_init_def cif_step_def select_col_def
        broadcast_to_def where1_def where2_def scale_rows_def time_slice_def Let_def)
  from cif_integrate_reset[OF h, of 1] obtain acc acc' recs where
    *: "integrate_after 1 ?h ?a (Suc 1) = Inr acc'"
       "fires_after 1 ?h ?a (Suc 1) = Inr recs"
       "(1::real) \<le> 1 \<and> (\<forall>r\<in>set (data2 ?a). \<forall>x\<in>set r. 0 \<le> x) \<and>
        (\<forall>t\<le>1. \<forall>b<batch3 ?h. recs ! t ! b < 1 + 1) \<longrightarrow>
        (\<forall>b<batch3 ?h. 0 \<le> acc' ! b \<and> acc' ! b < 1)"
    by blast
  from *(2) ev have recs: "recs = [[6 / 10], [13 / 10]]" by simp
  have "\<forall>t\<le>1. \<forall>b<batch3 ?h. recs ! t ! b < 1 + 1"
    by (simp add: recs le_Suc_eq)
  with *(3) have "\<forall>b<batch3 ?h. 0 \<le> acc' ! b \<and> acc' ! b < 1" by simp
  then have "0 \<le> acc' ! 0 \<and> acc' ! 0 < 1" by simp
  with *(1) show ?thesis by (simp add: numeral_2_eq_2)
qed


section \<open>Claims about the outputs of \<open>cif\<close>\<close>

text \<open>
  C3.  For alphas of the shape \<open>(batch, time)\<close> of the frames, both dimensions positive,
  \<open>cif\<close> returns a fire trace of shape \<open>(batch, time)\<close> whose entry \<open>(b, t)\<close> is the
  raw integral of batch element \<open>b\<close> at step \<open>t\<close>: the weight accumulated over the steps
  before \<open>t\<close> (one unit taken off at each firing) plus \<open>alphas[b, t]\<close>, before the reset of
  step \<open>t\<close>, and not a boolean.  It is the value of the loop variable \<open>integrate\<close> on
  entry to iteration \<open>t\<close> plus \<open>alphas[b, t]\<close>, and the tensor that \<open>list_fires[t]\<close>
  refers to holds that entry after every later iteration \<open>n\<close> too: the in-place additions
  and the resets of later steps do not alter it.
\<close>

theorem cif_fire_trace:
  assumes "wf_tensor2 alphas" and "rows2 alphas = batch3 hidden"
    and "cols2 alphas = time3 hidden" and "0 < batch3 hidden" and "0 < time3 hidden"
  shows "\<exists>tok fires. cif hidden alphas threshold = Inr (tok, fires) \<and>
           rows2 fires = batch3 hidden \<and> cols2 fires = time3 hidden \<and> wf_tensor2 fires \<and>
           (\<forall>b<batch3 hidden. \<forall>t<time3 hidden.
              data2 fires ! b ! t = raw_integral threshold (data2 alphas ! b) t) \<and>
           (\<forall>b<batch3 hidden. \<forall>t<time3 hidden. \<exists>acc.
              integrate_after threshold hidden alphas t = Inr acc \<and>
              acc ! b = integral_before threshold (data2 alphas ! b) t \<and>
              data2 fires ! b ! t = acc ! b + data2 alphas ! b ! t) \<and>
           (\<forall>n\<le>time3 hidden. \<forall>t<n. \<exists>recs.
              fires_after threshold hidden alphas n = Inr recs \<and>
              (\<forall>b<batch3 hidden. recs ! t ! b = data2 fires ! b ! t))"
proof -
  have len: "length (data2 alphas) = batch3 hidden"
    using assms(1,2) by (simp add: wf_tensor2_def)
  have le: "time3 hidden \<le> cols2 alphas" using assms(3) by simp
  obtain tok where c: "cif hidden alphas threshold = Inr (tok, fires_tensor threshold hidden alphas)"
    using cif_unfold[OF assms(1,2) le assms(5,4), of threshold] by (simp add: Let_def)
  have shape: "rows2 (fires_tensor threshold hidden alphas) = batch3 hidden"
     "cols2 (fires_tensor threshold hidden alphas) = time3 hidden"
    by (simp_all add: fires_tensor_def)
  have raw: "\<forall>b<batch3 hidden. \<forall>t<time3 hidden.
      data2 (fires_tensor threshold hidden alphas) ! b ! t =
        raw_integral threshold (data2 alphas ! b) t"
    by (simp add: fires_tensor_nth fire_at_row[OF len])
  have acc: "\<exists>acc. integrate_after threshold hidden alphas t = Inr acc \<and>
              acc ! b = integral_before threshold (data2 alphas ! b) t \<and>
              data2 (fires_tensor threshold hidden alphas) ! b ! t = acc ! b + data2 alphas ! b ! t"
    if "b < batch3 hidden" "t < time3 hidden" for b t
  proof -
    have "t \<le> cols2 alphas" using that(2) assms(3) by simp
    then have "integrate_after threshold hidden alphas t =
               Inr (integrate_at threshold alphas (batch3 hidden) t)"
      by (rule integrate_after_eq[OF assms(1,2)])
    then show ?thesis
      using that by (simp add: fires_tensor_nth fire_at_nth[OF len] integrate_at_row[OF len])
  qed
  have kept: "\<exists>recs. fires_after threshold hidden alphas n = Inr recs \<and>
              (\<forall>b<batch3 hidden. recs ! t ! b = data2 (fires_tensor threshold hidden alphas) ! b ! t)"
    if "n \<le> time3 hidden" "t < n" for n t
  proof -
    have "n \<le> cols2 alphas" using that(1) assms(3) by simp
    then have "fires_after threshold hidden alphas n =
               Inr (map (fire_at threshold alphas (batch3 hidden)) [0..<n])"
      by (rule fires_after_eq[OF assms(1,2)])
    then show ?thesis
      using that by (simp add: fires_tensor_nth)
  qed
  show ?thesis
    using c shape wf_fires_tensor raw acc kept by blast
qed

theorem cif_fire_trace_witness:
  "\<exists>tok. cif \<lparr>batch3 = 1, time3 = 2, feat3 = 1, data3 = [[[1], [2]]]\<rparr>
            \<lparr>rows2 = 1, cols2 = 2, data2 = [[6 / 10, 7 / 10]]\<rparr> 1 =
          Inr (tok, \<lparr>rows2 = 1, cols2 = 2, data2 = [[6 / 10, 13 / 10]]\<rparr>)"
proof -
  let ?h = "\<lparr>batch3 = 1, time3 = 2, feat3 = 1, data3 = [[[1::real], [2]]]\<rparr>"
  let ?a = "\<lparr>rows2 = 1, cols2 = 2, data2 = [[6 / 10, 7 / 10 :: real]]\<rparr>"
  have "wf_tensor2 ?a" "rows2 ?a = batch3 ?h" "cols2 ?a = time3 ?h" "0 < batch3 ?h" "0 < time3 ?h"
    by (simp_all add: wf_tensor2_def)
  from cif_fire_trace[OF this, of 1] obtain tok fires where
    *: "cif ?h ?a 1 = Inr (tok, fires)" "rows2 fires = batch3 ?h" "cols2 fires = time3 ?h"
       "wf_tensor2 fires"
       "\<forall>b<batch3 ?h. \<forall>t<time3 ?h. data2 fires ! b ! t = raw_integral 1 (data2 ?a ! b) t"
    by blast
  have r0: "raw_integral 1 (data2 ?a ! 0) 0 = 6 / 10"
    by (simp add: raw_integral_def)
  have r1: "raw_integral 1 (data2 ?a ! 0) 1 = 13 / 10"
    by (simp add: raw_integral_def)
  from *(5)[rule_format, of 0 0] r0 have e0: "data2 fires ! 0 ! 0 = 6 / 10"
    by simp
  from *(5)[rule_format, of 0 1] r1 have e1: "data2 fires ! 0 ! 1 = 13 / 10"
    by simp
  from *(2,3,4) have l: "length (data2 fires) = 1" "length (data2 fires ! 0) = 2"
    by (auto simp: wf_tensor2_def list_all_length)
  have d: "data2 fires = [[6 / 10, 13 / 10]]"
    by (rule one_row_of_two[OF l e0 e1])
  have "fires = \<lparr>rows2 = 1, cols2 = 2, data2 = [[6 / 10, 13 / 10]]\<rparr>"
    using *(2,3) d by (cases fires) simp
  with *(1) show ?thesis by blast
qed


text \<open>
  C4.  For well-formed frames and alphas of the same batch and time sizes, both positive,
  the token embeddings have shape \<open>(batch, max_fires, hidden)\<close>, where \<open>max_fires\<close>
  is the largest number of firing positions (entries of the fire trace that reach the
  threshold) of a batch element; row \<open>b\<close> holds the recorded frame-history vectors of
  batch element \<open>b\<close> at its firing positions, in time order, followed by zero vectors only.
  The fire trace and the recorded frame history are those of the recursion for one batch
  element: the firing positions are the steps at which that recursion fires, and the
  vector selected at such a step is the weighted sum of frames it has accumulated there.
\<close>

theorem cif_token_embeddings:
  assumes "wf_tensor3 hidden" and "wf_tensor2 alphas"
    and "rows2 alphas = batch3 hidden" and "cols2 alphas = time3 hidden"
    and "0 < batch3 hidden" and "0 < time3 hidden"
  shows "\<exists>tok fires frames.
           cif hidden alphas threshold = Inr (tok, fires) \<and>
           cif_frames hidden alphas threshold = Inr frames \<and>
           wf_tensor3 tok \<and> batch3 tok = batch3 hidden \<and> feat3 tok = feat3 hidden \<and>
           time3 tok =
             Max ((\<lambda>b. length (fire_positions threshold fires b)) ` {0..<batch3 hidden}) \<and>
           (\<forall>b<batch3 hidden.
              data3 tok ! b =
                map (\<lambda>t. data3 frames ! b ! t) (fire_positions threshold fires b) @
                replicate (time3 tok - length (fire_positions threshold fires b))
                  (replicate (feat3 hidden) 0)) \<and>
           rows2 fires = batch3 hidden \<and> cols2 fires = time3 hidden \<and>
           batch3 frames = batch3 hidden \<and> time3 frames = time3 hidden \<and>
           (\<forall>b<batch3 hidden.
              fire_positions threshold fires b =
                firing_steps threshold (data2 alphas ! b) (time3 hidden) \<and>
              (\<forall>t<time3 hidden.
                 data2 fires ! b ! t = raw_integral threshold (data2 alphas ! b) t \<and>
                 data3 frames ! b ! t =
                   frame_history threshold (feat3 hidden) (data3 hidden ! b) (data2 alphas ! b) t) \<and>
              data3 tok ! b =
                map (frame_history threshold (feat3 hidden) (data3 hidden ! b) (data2 alphas ! b))
                  (firing_steps threshold (data2 alphas ! b) (time3 hidden)) @
                replicate
                  (time3 tok - length (firing_steps threshold (data2 alphas ! b) (time3 hidden)))
                  (replicate (feat3 hidden) 0))"
proof -
  let ?fires = "fires_tensor threshold hidden alphas"
  let ?frames = "frames_tensor threshold hidden alphas"
  let ?c = "\<lambda>b. length (fire_positions threshold ?fires b)"
  let ?m = "Max (?c ` {0..<batch3 hidden})"
  let ?row = "\<lambda>b. map (\<lambda>t. data3 ?frames ! b ! t) (fire_positions threshold ?fires b) @
                 replicate (?m - ?c b) (replicate (feat3 hidden) 0)"
  let ?tok = "\<lparr>batch3 = batch3 hidden, time3 = ?m, feat3 = feat3 hidden,
               data3 = map ?row [0..<batch3 hidden]\<rparr>"
  have len: "length (data2 alphas) = batch3 hidden"
    using assms(2,3) by (simp add: wf_tensor2_def)
  have le: "time3 hidden \<le> cols2 alphas" using assms(4) by simp
  have c: "cif hidden alphas threshold = Inr (?tok, ?fires)"
    by (rule cif_result[OF assms(2,3) le assms(6,5)])
  have f: "cif_frames hidden alphas threshold = Inr ?frames"
    by (rule cif_frames_eq[OF assms(2,3) le assms(6)])
  have wfF: "wf_tensor3 ?frames"
    by (rule wf_frames_tensor[OF assms(1) len])
  have c_le: "?c b \<le> ?m" if "b < batch3 hidden" for b
    using that by (intro Max_ge) simp_all
  have vec: "length v = feat3 hidden" if "b < batch3 hidden" "v \<in> set (?row b)" for b v
  proof -
    have "length (data3 ?frames ! b ! t) = feat3 hidden"
      if "t \<in> set (fire_positions threshold ?fires b)" for t
    proof -
      have "t < time3 hidden"
        using fire_positions_bound[OF that] by (simp add: fires_tensor_def)
      then show ?thesis
        using wf_tensor3_nth[OF wfF, of b t] \<open>b < batch3 hidden\<close>
        by (simp add: frames_tensor_def)
    qed
    then show ?thesis using that(2) by auto
  qed
  have wf: "wf_tensor3 ?tok"
    using c_le vec by (auto simp: wf_tensor3_def list_all_iff)
  have rows: "\<forall>b<batch3 hidden. data3 ?tok ! b =
      map (\<lambda>t. data3 ?frames ! b ! t) (fire_positions threshold ?fires b) @
      replicate (time3 ?tok - ?c b) (replicate (feat3 hidden) 0)"
    by simp
  have shapes: "rows2 ?fires = batch3 hidden" "cols2 ?fires = time3 hidden"
    "batch3 ?frames = batch3 hidden" "time3 ?frames = time3 hidden"
    by (simp_all add: fires_tensor_def frames_tensor_def)
  have pos: "fire_positions threshold ?fires b =
             firing_steps threshold (data2 alphas ! b) (time3 hidden)"
    if "b < batch3 hidden" for b
    by (rule fire_positions_row[OF len that])
  have ent: "data2 ?fires ! b ! t = raw_integral threshold (data2 alphas ! b) t \<and>
             data3 ?frames ! b ! t =
               frame_history threshold (feat3 hidden) (data3 hidden ! b) (data2 alphas ! b) t"
    if "b < batch3 hidden" "t < time3 hidden" for b t
    using that
    by (simp add: fires_tensor_nth fire_at_row[OF len] frames_tensor_nth
        record_at_row[OF assms(1) len])
  have ref: "data3 ?tok ! b =
      map (frame_history threshold (feat3 hidden) (data3 hidden ! b) (data2 alphas ! b))
        (firing_steps threshold (data2 alphas ! b) (time3 hidden)) @
      replicate (time3 ?tok - length (firing_steps threshold (data2 alphas ! b) (time3 hidden)))
        (replicate (feat3 hidden) 0)"
    if b: "b < batch3 hidden" for b
  proof -
    have "map (\<lambda>t. data3 ?frames ! b ! t) (firing_steps threshold (data2 alphas ! b) (time3 hidden)) =
          map (frame_history threshold (feat3 hidden) (data3 hidden ! b) (data2 alphas ! b))
            (firing_steps threshold (data2 alphas ! b) (time3 hidden))"
      using ent[OF b] by (intro map_cong) (simp_all add: firing_steps_def)
    then show ?thesis
      using b by (simp add: pos[OF b])
  qed
  show ?thesis
    apply (rule exI[of _ ?tok], rule exI[of _ ?fires], rule exI[of _ ?frames])
    apply (intro conjI)
    using c f wf rows shapes pos ent ref by simp_all
qed

theorem cif_token_embeddings_witness:
  "\<exists>fires. cif \<lparr>batch3 = 1, time3 = 2, feat3 = 1, data3 = [[[1], [2]]]\<rparr>
              \<lparr>rows2 = 1, cols2 = 2, data2 = [[6 / 10, 7 / 10]]\<rparr> 1 =
            Inr (\<lparr>batch3 = 1, time3 = 1, feat3 = 1, data3 = [[[14 / 10]]]\<rparr>, fires) \<and>
          fire_positions 1 fires 0 = [1]"
proof -
  let ?h = "\<lparr>batch3 = 1, time3 = 2, feat3 = 1, data3 = [[[1::real], [2]]]\<rparr>"
  let ?a = "\<lparr>rows2 = 1, cols2 = 2, data2 = [[6 / 10, 7 / 10 :: real]]\<rparr>"
  have h: "wf_tensor3 ?h" "wf_tensor2 ?a" "rows2 ?a = batch3 ?h" "cols2 ?a = time3 ?h"
    "0 < batch3 ?h" "0 < time3 ?h"
    by (simp_all add: wf_tensor3_def wf_tensor2_def)
  have fs: "firing_steps 1 (data2 ?a ! 0) (time3 ?h) = [1]"
    by (simp add: firing_steps_def upt2 firing_def raw_integral_def)
  have fh: "frame_history 1 (feat3 ?h) (data3 ?h ! 0) (data2 ?a ! 0) 1 = [14 / 10]"
    by (simp add: frame_history_def contribution_def firing_def raw_integral_def)
  from cif_token_embeddings[OF h, of 1] show ?thesis
  proof (elim exE conjE)
    fix tok fires frames
    assume c: "cif ?h ?a 1 = Inr (tok, fires)"
      and wf: "wf_tensor3 tok" and b: "batch3 tok = batch3 ?h" and f: "feat3 tok = feat3 ?h"
      and m: "time3 tok = Max ((\<lambda>b. length (fire_positions 1 fires b)) ` {0..<batch3 ?h})"
      and all: "\<forall>b<batch3 ?h.
          fire_positions 1 fires b = firing_steps 1 (data2 ?a ! b) (time3 ?h) \<and>
          (\<forall>t<time3 ?h.
             data2 fires ! b ! t = raw_integral 1 (data2 ?a ! b) t \<and>
             data3 frames ! b ! t =
               frame_history 1 (feat3 ?h) (data3 ?h ! b) (data2 ?a ! b) t) \<and>
          data3 tok ! b =
            map (frame_history 1 (feat3 ?h) (data3 ?h ! b) (data2 ?a ! b))
              (firing_steps 1 (data2 ?a ! b) (time3 ?h)) @
            replicate (time3 tok - length (firing_steps 1 (data2 ?a ! b) (time3 ?h)))
              (replicate (feat3 ?h) 0)"
    from all[rule_format, of 0] have
      p: "fire_positions 1 fires 0 = firing_steps 1 (data2 ?a ! 0) (time3 ?h)" and
      r: "data3 tok ! 0 =
            map (frame_history 1 (feat3 ?h) (data3 ?h ! 0) (data2 ?a ! 0))
              (firing_steps 1 (data2 ?a ! 0) (time3 ?h)) @
            replicate (time3 tok - length (firing_steps 1 (data2 ?a ! 0) (time3 ?h)))
              (replicate (feat3 ?h) 0)"
      by simp_all
    have pos: "fire_positions 1 fires 0 = [1]"
      using p fs by simp
    have t: "time3 tok = 1"
      using m pos by simp
    have row: "data3 tok ! 0 = [[14 / 10]]"
      unfolding r fs using fh t by simp
    have "length (data3 tok) = 1"
      using wf b by (simp add: wf_tensor3_def)
    then obtain x where "data3 tok = [x]"
      by (cases "data3 tok") auto
    with row have d: "data3 tok = [[[14 / 10]]]" by simp
    have "tok = \<lparr>batch3 = 1, time3 = 1, feat3 = 1, data3 = [[[14 / 10]]]\<rparr>"
      using b f t d by (cases tok) simp
    with c pos show ?thesis by blast
  qed
qed


section \<open>Claims about \<open>cif\<close> on a concrete input\<close>

text \<open>
  C5.  For one batch element with frames \<open>f0\<close>, \<open>f1\<close>, \<open>f2\<close> of one size,
  alphas \<open>[0.5, 0.5, 1.0]\<close> and threshold \<open>1.0\<close>, the fire trace is
  \<open>[0.5, 1, 1]\<close>, so that the firings are exactly the time steps 1 and 2, and the two
  token embeddings are \<open>0.5 * f0 + 0.5 * f1\<close> and \<open>1.0 * f2\<close>.
\<close>

theorem cif_example:
  assumes "length f0 = d" and "length f1 = d" and "length f2 = d"
  shows "cif \<lparr>batch3 = 1, time3 = 3, feat3 = d, data3 = [[f0, f1, f2]]\<rparr>
             \<lparr>rows2 = 1, cols2 = 3, data2 = [[1 / 2, 1 / 2, 1]]\<rparr> 1 =
         Inr (\<lparr>batch3 = 1, time3 = 2, feat3 = d,
                data3 = [[map2 (+) (map ((*) (1 / 2)) f0) (map ((*) (1 / 2)) f1),
                          map ((*) 1) f2]]\<rparr>,
              \<lparr>rows2 = 1, cols2 = 3, data2 = [[1 / 2, 1, 1]]\<rparr>) \<and>
         fire_positions 1 \<lparr>rows2 = 1, cols2 = 3, data2 = [[1 / 2, 1, 1]]\<rparr> 0 = [1, 2]"
proof -
  have p: "fire_positions 1 \<lparr>rows2 = 1, cols2 = 3, data2 = [[1 / 2, 1, 1]]\<rparr> 0 = [1, 2]"
    by (simp add: fire_positions_def upt3)
  have "cif \<lparr>batch3 = 1, time3 = 3, feat3 = d, data3 = [[f0, f1, f2]]\<rparr>
             \<lparr>rows2 = 1, cols2 = 3, data2 = [[1 / 2, 1 / 2, 1]]\<rparr> 1 =
         Inr (\<lparr>batch3 = 1, time3 = 2, feat3 = d,
                data3 = [[map2 (+) (map ((*) (1 / 2)) f0) (map ((*) (1 / 2)) f1),
                          map ((*) 1) f2]]\<rparr>,
              \<lparr>rows2 = 1, cols2 = 3, data2 = [[1 / 2, 1, 1]]\<rparr>)"
    using assms
    by (simp add: cif_def upt3 cif_init_def cif_step_def select_col_def broadcast_to_def
        where1_def where2_def scale_rows_def time_slice_def stack_vecs_def stack_mats_def
        masked_rows_def zeros3_def Let_def select_all_False select_all_True add_zeros_left
        scale_by_zero)
  with p show ?thesis by simp
qed

theorem cif_example_witness:
  "cif \<lparr>batch3 = 1, time3 = 3, feat3 = 2, data3 = [[[1, 2], [3, 4], [5, 6]]]\<rparr>
       \<lparr>rows2 = 1, cols2 = 3, data2 = [[1 / 2, 1 / 2, 1]]\<rparr> 1 =
   Inr (\<lparr>batch3 = 1, time3 = 2, feat3 = 2, data3 = [[[2, 3], [5, 6]]]\<rparr>,
        \<lparr>rows2 = 1, cols2 = 3, data2 = [[1 / 2, 1, 1]]\<rparr>)"
  using cif_example[of "[1, 2]" 2 "[3, 4]" "[5, 6]"] by simp

section \<open>Claims about degenerate inputs of \<open>cif\<close>\<close>

text \<open>
  C9, as the claim states it, is false for a time dimension of length zero: the loop does
  not run, \<open>list_fires\<close> stays empty and \<open>torch.stack\<close> raises on the empty list.
\<close>

theorem cif_zero_time_counterexample:
  "cif \<lparr>batch3 = 1, time3 = 0, feat3 = 1, data3 = [[]]\<rparr>
       \<lparr>rows2 = 1, cols2 = 0, data2 = [[]]\<rparr> 1 = Inl EmptyTensorList"
  by (simp add: cif_def cif_init_def stack_vecs_def)

text \<open>
  C9, amended.  For a zero-length time dimension \<open>cif\<close> raises (the empty list given to
  \<open>torch.stack\<close>).  For all-zero alphas of shape \<open>(B, T)\<close> with \<open>B\<close> and \<open>T\<close>
  positive and a positive threshold it returns token embeddings whose token dimension has
  size 0 and a fire trace of shape \<open>(B, T)\<close> that is zero everywhere.
\<close>

theorem cif_degenerate:
  "(time3 hidden = 0 \<longrightarrow> cif hidden alphas threshold = Inl EmptyTensorList) \<and>
   (wf_tensor2 alphas \<and> rows2 alphas = batch3 hidden \<and> cols2 alphas = time3 hidden \<and>
    0 < batch3 hidden \<and> 0 < time3 hidden \<and> 0 < threshold \<and>
    (\<forall>r\<in>set (data2 alphas). \<forall>x\<in>set r. x = 0) \<longrightarrow>
    cif hidden alphas threshold =
      Inr (\<lparr>batch3 = batch3 hidden, time3 = 0, feat3 = feat3 hidden,
             data3 = replicate (batch3 hidden) []\<rparr>,
           \<lparr>rows2 = batch3 hidden, cols2 = time3 hidden,
             data2 = replicate (batch3 hidden) (replicate (time3 hidden) 0)\<rparr>))"
proof (intro conjI impI)
  assume "time3 hidden = 0"
  then show "cif hidden alphas threshold = Inl EmptyTensorList"
    by (simp add: cif_def cif_init_def stack_vecs_def)
next
  let ?B = "batch3 hidden" and ?T = "time3 hidden"
  let ?fires = "fires_tensor threshold hidden alphas"
  assume a: "wf_tensor2 alphas \<and> rows2 alphas = batch3 hidden \<and> cols2 alphas = time3 hidden \<and>
    0 < batch3 hidden \<and> 0 < time3 hidden \<and> 0 < threshold \<and>
    (\<forall>r\<in>set (data2 alphas). \<forall>x\<in>set r. x = 0)"
  then have wf: "wf_tensor2 alphas" and r: "rows2 alphas = ?B" and c: "cols2 alphas = ?T"
    and B: "0 < ?B" and T: "0 < ?T" and th: "0 < threshold"
    and z: "\<forall>r\<in>set (data2 alphas). \<forall>x\<in>set r. x = 0"
    by simp_all
  have len: "length (data2 alphas) = ?B"
    using wf r by (simp add: wf_tensor2_def)
  have zero: "data2 alphas ! i ! t = 0" if "i < ?B" "t < ?T" for i t
  proof -
    have "data2 alphas ! i ! t \<in> set (data2 alphas ! i)"
      using wf_tensor2_nth[OF wf, of i t] that r c by simp
    moreover have "data2 alphas ! i \<in> set (data2 alphas)"
      using that len by simp
    ultimately show ?thesis using z by blast
  qed
  have fz: "fire_at threshold alphas ?B t = replicate ?B 0" if "t < ?T" for t
    using that zero by (intro fire_at_zero[OF len th]) simp
  have fires: "?fires = \<lparr>rows2 = ?B, cols2 = ?T, data2 = replicate ?B (replicate ?T 0)\<rparr>"
    unfolding fires_tensor_def
    by (simp, intro nth_equalityI) (simp_all add: fz cong: map_cong)
  have fp: "fire_positions threshold ?fires b = []" if "b < ?B" for b
    using that th by (simp add: fires fire_positions_def)
  have le: "?T \<le> cols2 alphas" using c by simp
  have "(\<lambda>b. length (fire_positions threshold ?fires b)) ` {0..<?B} = {0}"
    using B fp by (auto simp: image_def)
  then have m: "Max ((\<lambda>b. length (fire_positions threshold ?fires b)) ` {0..<?B}) = 0"
    by simp
  have d: "map (\<lambda>b. map (\<lambda>t. data3 (frames_tensor threshold hidden alphas) ! b ! t)
                       (fire_positions threshold ?fires b) @
                     replicate (0 - length (fire_positions threshold ?fires b))
                       (replicate (feat3 hidden) 0)) [0..<?B] = replicate ?B []"
    by (intro nth_equalityI) (simp_all add: fp)
  show "cif hidden alphas threshold =
      Inr (\<lparr>batch3 = ?B, time3 = 0, feat3 = feat3 hidden, data3 = replicate ?B []\<rparr>,
           \<lparr>rows2 = ?B, cols2 = ?T, data2 = replicate ?B (replicate ?T 0)\<rparr>)"
    using cif_result[OF wf r le T B, of threshold]
    unfolding m d by (simp add: fires)
qed

theorem cif_degenerate_witness:
  "cif \<lparr>batch3 = 2, time3 = 0, feat3 = 1, data3 = [[], []]\<rparr>
       \<lparr>rows2 = 2, cols2 = 0, data2 = [[], []]\<rparr> 1 = Inl EmptyTensorList \<and>
   cif \<lparr>batch3 = 1, time3 = 2, feat3 = 1, data3 = [[[1], [2]]]\<rparr>
       \<lparr>rows2 = 1, cols2 = 2, data2 = [[0, 0]]\<rparr> 1 =
     Inr (\<lparr>batch3 = 1, time3 = 0, feat3 = 1, data3 = [[]]\<rparr>,
          \<lparr>rows2 = 1, cols2 = 2, data2 = [[0, 0]]\<rparr>)"
proof
  show "cif \<lparr>batch3 = 2, time3 = 0, feat3 = 1, data3 = [[], []]\<rparr>
       \<lparr>rows2 = 2, cols2 = 0, data2 = [[], []]\<rparr> 1 = Inl EmptyTensorList"
    using cif_degenerate[of "\<lparr>batch3 = 2, time3 = 0, feat3 = 1, data3 = [[], []]\<rparr>"
        "\<lparr>rows2 = 2, cols2 = 0, data2 = [[], []]\<rparr>" 1]
    by simp
  show "cif \<lparr>batch3 = 1, time3 = 2, feat3 = 1, data3 = [[[1], [2]]]\<rparr>
       \<lparr>rows2 = 1, cols2 = 2, data2 = [[0, 0]]\<rparr> 1 =
     Inr (\<lparr>batch3 = 1, time3 = 0, feat3 = 1, data3 = [[]]\<rparr>,
          \<lparr>rows2 = 1, cols2 = 2, data2 = [[0, 0]]\<rparr>)"
    using cif_degenerate[of "\<lparr>batch3 = 1, time3 = 2, feat3 = 1, data3 = [[[1], [2]]]\<rparr>"
        "\<lparr>rows2 = 1, cols2 = 2, data2 = [[0, 0]]\<rparr>" 1]
    by (simp add: wf_tensor2_def numeral_2_eq_2)
qed


section \<open>Claims about \<open>nll\<close> and \<open>batchify_nll\<close>\<close>

text \<open>
  C6.  The claim: in training mode \<open>batchify_nll\<close> returns, for every chunk size, the
  tensors of a single \<open>nll\<close> call on the whole batch.  Both calls of \<open>nll\<close> in
  \<open>batchify_nll\<close> leave out the required argument \<open>punc_lengths\<close>, so Python raises
  \<open>TypeError\<close> before the body of \<open>nll\<close> runs, on the single-pass branch and in the
  first chunk alike (lemma \<open>batchify_nll_raises\<close>, for every input).  With two sequences
  of one token \<open>nll\<close> on the whole batch returns the losses \<open>[[ln 2], [ln 2]]\<close>, and
  \<open>batchify_nll\<close> raises for the chunk sizes 1 and 2.  Were the argument supplied, the
  chunks would still raise for the stale mask width of C7 (lemma
  \<open>nll_max_length_raises\<close>).
\<close>

theorem batchify_nll_raises_type_error:
  "batchify_nll (\<lambda>toks lens. map (map (\<lambda>_. [0, 0])) toks) (\<lambda>_. 0) (\<lambda>_ _. 0) True 0
     [[5], [6]] [[1], [1]] [1, 1] 1 = Some (Inl TypeError) \<and>
   batchify_nll (\<lambda>toks lens. map (map (\<lambda>_. [0, 0])) toks) (\<lambda>_. 0) (\<lambda>_ _. 0) True 0
     [[5], [6]] [[1], [1]] [1, 1] 2 = Some (Inl TypeError) \<and>
   nll (\<lambda>toks lens. map (map (\<lambda>_. [0, 0])) toks) (\<lambda>_. 0) (\<lambda>_ _. 0) True 0
     [[5], [6]] [[1], [1]] [1, 1] None = Inr (Mat [[ln 2], [ln 2]], [1, 1])"
  by (simp add: batchify_nll_def batchify_loop.simps nll_call_def nll_def lengths_max_def
      view_flat_slice_def cross_entropy_def valid_target_def item_loss_def masked_fill_def
      make_pad_mask_def view_rows_def Let_def upt_rec)


text \<open>
  C7.  The claim: in training mode the padding positions of the returned tensor are
  \<open>0.0\<close>, also when an explicit \<open>max_length\<close> is supplied.  Without \<open>max_length\<close>
  that is what \<open>nll\<close> returns (lemma \<open>nll_training\<close>: the entry at \<open>(b, i)\<close> is 0
  for \<open>i \<ge> text_lengths[b]\<close>).  With an explicit \<open>max_length\<close> of at least 1 the mask
  has one position more for each sequence than the loss, and \<open>nll\<close> raises instead of
  returning (lemma \<open>nll_max_length_raises\<close>): here for one sequence of true length 2
  padded to 3 and \<open>max_length = 3\<close>.
\<close>

theorem nll_explicit_max_length_raises:
  "nll (\<lambda>toks lens. map (map (\<lambda>_. [0, 0])) toks) (\<lambda>_. 0) (\<lambda>_ _. 0) True 0
     [[5, 6, 0]] [[1, 1, 0]] [2] (Some 3) = Inl SizeMismatch"
  by (simp add: nll_def view_flat_slice_def cross_entropy_def valid_target_def item_loss_def
      masked_fill_def make_pad_mask_def upt_rec)





text \<open>
  C10.  In training mode without \<open>max_length\<close>, for \<open>text\<close> and \<open>punc\<close> of shape
  \<open>(B, w)\<close> with \<open>n \<le> w\<close> the largest length and a slice \<open>punc[:, :n]\<close> that can be
  viewed flat (one sequence, or \<open>w = n\<close>), \<open>nll\<close> returns a tensor of shape \<open>(B, n)\<close>
  in which every position whose target label is \<open>ignore_id\<close> is exactly 0, whether or not
  the position is below the sequence's length, while a position below the length with any
  other label holds the negative log-softmax of its logits at the label.
\<close>

theorem nll_ignored_label_zero:
  fixes punc_model :: "int list list \<Rightarrow> nat list \<Rightarrow> real list list list"
  assumes "n = fold max text_lengths 0"
    and "y = punc_model (map (take n) toks) text_lengths"
    and "length toks = B" and "length punc = B" and "length text_lengths = B" and "0 < B"
    and "\<forall>r\<in>set punc. length r = w" and "n \<le> w" and "B = 1 \<or> w = n"
    and "length y = B" and "\<forall>r\<in>set y. length r = n"
    and "\<forall>b<B. \<forall>i<n. valid_target ignore_id (y ! b ! i) (punc ! b ! i)"
  shows "\<exists>rows. nll punc_model topk1 f1_score True ignore_id toks punc text_lengths None =
                  Inr (Mat rows, text_lengths) \<and>
                length rows = B \<and> (\<forall>b<B. length (rows ! b) = n) \<and>
                (\<forall>b<B. \<forall>i<n. punc ! b ! i = ignore_id \<longrightarrow> rows ! b ! i = 0) \<and>
                (\<forall>b<B. \<forall>i<n. i < text_lengths ! b \<and> punc ! b ! i \<noteq> ignore_id \<longrightarrow>
                   rows ! b ! i =
                     ln (sum_list (map exp (y ! b ! i))) - y ! b ! i ! nat (punc ! b ! i))"
proof -
  let ?rows = "map (\<lambda>b. map (\<lambda>i. if text_lengths ! b \<le> i then 0
                                   else item_loss ignore_id (y ! b ! i) (punc ! b ! i))
                             [0..<n]) [0..<B]"
  have "nll punc_model topk1 f1_score True ignore_id toks punc text_lengths None =
        Inr (Mat ?rows, text_lengths)"
    unfolding assms(1,2)
    by (rule nll_training[where w = w]) (use assms in simp_all)
  moreover have "\<forall>b<B. \<forall>i<n. punc ! b ! i = ignore_id \<longrightarrow> ?rows ! b ! i = 0"
    by (simp add: item_loss_def)
  moreover have "\<forall>b<B. \<forall>i<n. i < text_lengths ! b \<and> punc ! b ! i \<noteq> ignore_id \<longrightarrow>
                   ?rows ! b ! i =
                     ln (sum_list (map exp (y ! b ! i))) - y ! b ! i ! nat (punc ! b ! i)"
    by (simp add: item_loss_def)
  moreover have "length ?rows = B" "\<forall>b<B. length (?rows ! b) = n"
    by simp_all
  ultimately show ?thesis by blast
qed

theorem nll_ignored_label_zero_witness:
  "nll (\<lambda>toks lens. map (map (\<lambda>_. [0, 0])) toks) (\<lambda>_. 0) (\<lambda>_ _. 0) True 0
     [[5, 6], [7, 8]] [[0, 1], [1, 0]] [2, 1] None = Inr (Mat [[0, ln 2], [ln 2, 0]], [2, 1])"
proof -
  let ?pm = "\<lambda>(toks :: int list list) (lens :: nat list). map (map (\<lambda>_. [0, 0 :: real])) toks"
  let ?toks = "[[5, 6], [7, 8 :: int]]"
  let ?punc = "[[0, 1], [1, 0 :: int]]"
  let ?lens = "[2, 1 :: nat]"
  let ?y = "[[[0, 0], [0, 0]], [[0, 0], [0, 0 :: real]]]"
  have v: "\<forall>b<2. \<forall>i<2. valid_target 0 (?y ! b ! i) (?punc ! b ! i)"
    by (auto simp: valid_target_def less_Suc_eq numeral_2_eq_2)
  have "\<exists>rows. nll ?pm (\<lambda>_. 0) (\<lambda>_ _. 0) True 0 ?toks ?punc ?lens None = Inr (Mat rows, ?lens) \<and>
          length rows = 2 \<and> (\<forall>b<2. length (rows ! b) = 2) \<and>
          (\<forall>b<2. \<forall>i<2. ?punc ! b ! i = 0 \<longrightarrow> rows ! b ! i = 0) \<and>
          (\<forall>b<2. \<forall>i<2. i < ?lens ! b \<and> ?punc ! b ! i \<noteq> 0 \<longrightarrow>
             rows ! b ! i = ln (sum_list (map exp (?y ! b ! i))) - ?y ! b ! i ! nat (?punc ! b ! i))"
    by (rule nll_ignored_label_zero[where y = ?y and n = 2 and B = 2 and w = 2])
       (use v in simp_all)
  then obtain rows where
    r: "nll ?pm (\<lambda>_. 0) (\<lambda>_ _. 0) True 0 ?toks ?punc ?lens None = Inr (Mat rows, ?lens)"
       "length rows = 2" "\<forall>b<2. length (rows ! b) = 2"
       "\<forall>b<2. \<forall>i<2. ?punc ! b ! i = 0 \<longrightarrow> rows ! b ! i = 0"
       "\<forall>b<2. \<forall>i<2. i < ?lens ! b \<and> ?punc ! b ! i \<noteq> 0 \<longrightarrow>
             rows ! b ! i = ln (sum_list (map exp (?y ! b ! i))) - ?y ! b ! i ! nat (?punc ! b ! i)"
    by blast
  from r(4)[rule_format, of 0 0] have e00: "rows ! 0 ! 0 = 0" by simp
  from r(4)[rule_format, of 1 1] have e11: "rows ! 1 ! 1 = 0" by simp
  from r(5)[rule_format, of 0 1] have e01: "rows ! 0 ! 1 = ln 2" by simp
  from r(5)[rule_format, of 1 0] have e10: "rows ! 1 ! 0 = ln 2" by simp
  from r(3)[rule_format, of 0] r(3)[rule_format, of 1]
  have l: "length (rows ! 0) = 2" "length (rows ! 1) = 2" by simp_all
  have r0: "rows ! 0 = [0, ln 2]"
    using list_of_two[OF l(1)] e00 e01 by simp
  have r1: "rows ! 1 = [ln 2, 0]"
    using list_of_two[OF l(2)] e10 e11 by simp
  have "rows = [rows ! 0, rows ! 1]"
    by (rule list_of_two[OF r(2)])
  with r0 r1 have "rows = [[0, ln 2], [ln 2, 0]]" by simp
  with r(1) show ?thesis by simp
qed


end
